theory Spec2Isabelle
  imports Main "HOL-Library.AList"
begin

section \<open>Python values, errors and dictionaries\<close>

text \<open>
  The module \<^verbatim>\<open>src/Ingestion.py\<close> raises one exception of its own (\<^verbatim>\<open>ValueError\<close>,
  line 111); every other failure comes out of a library call: a dictionary subscript, \<^verbatim>\<open>os.makedirs\<close>,
  or the compute engine (session start, schema parsing, reading, writing).
\<close>

datatype error =
    ValueError string
  | KeyError string
  | OSError string
  | EngineError string

datatype pyval = PyInt int | PyStr string

text \<open>A \<^verbatim>\<open>dict\<close> with string keys, in insertion order.\<close>

type_synonym 'v dict = "(string \<times> 'v) list"

definition subscript :: "'v dict \<Rightarrow> string \<Rightarrow> error + 'v" where
  "subscript d k = (case map_of d k of None \<Rightarrow> Inl (KeyError k) | Some v \<Rightarrow> Inr v)"

definition setitem :: "'v dict \<Rightarrow> string \<Rightarrow> 'v \<Rightarrow> 'v dict" where
  "setitem d k v = AList.update k v d"

definition keys :: "'v dict \<Rightarrow> string list" where
  "keys d = map fst d"

text \<open>Python truthiness of the value of \<^verbatim>\<open>os.getenv(k)\<close>: \<^verbatim>\<open>None\<close> and \<^verbatim>\<open>""\<close> are falsy.\<close>

definition py_not :: "string option \<Rightarrow> bool" where
  "py_not v = (case v of None \<Rightarrow> True | Some s \<Rightarrow> s = [])"

section \<open>Text helpers\<close>

definition newline :: char where
  "newline = CHR 0x0A"

text \<open>
  A triple-quoted literal whose opening quotes are followed by a line break: the text starts with a
  newline and every source line ends with one.
\<close>

definition triple_quoted :: "string list \<Rightarrow> string" where
  "triple_quoted ls = newline # concat (map (\<lambda>l. l @ [newline]) ls)"

fun split_where :: "(char \<Rightarrow> bool) \<Rightarrow> string \<Rightarrow> string list" where
  "split_where p [] = [[]]"
| "split_where p (x # xs) =
     (if p x then [] # split_where p xs
      else (case split_where p xs of [] \<Rightarrow> [[x]] | w # ws \<Rightarrow> (x # w) # ws))"

definition split_on :: "char \<Rightarrow> string \<Rightarrow> string list" where
  "split_on c s = split_where (\<lambda>x. x = c) s"

definition is_space :: "char \<Rightarrow> bool" where
  "is_space c = (c = CHR '' '' \<or> c = CHR 0x0A \<or> c = CHR 0x09 \<or> c = CHR 0x0D)"

definition words :: "string \<Rightarrow> string list" where
  "words s = filter (\<lambda>w. w \<noteq> []) (split_where is_space s)"

text \<open>The format specification \<^verbatim>\<open>{count:,}\<close>: decimal digits in groups of three.\<close>

definition digit_char :: "nat \<Rightarrow> char" where
  "digit_char d = ''0123456789'' ! d"

fun dec :: "nat \<Rightarrow> string" where
  "dec n = (if n < 10 then [digit_char n] else dec (n div 10) @ [digit_char (n mod 10)])"

declare dec.simps [simp del]

fun group3 :: "string \<Rightarrow> string list" where
  "group3 (a # b # c # d # r) = [a, b, c] # group3 (d # r)"
| "group3 r = [r]"

definition intercalate :: "'a list \<Rightarrow> 'a list list \<Rightarrow> 'a list" where
  "intercalate sep xss = (case xss of [] \<Rightarrow> [] | x # r \<Rightarrow> x @ concat (map (\<lambda>y. sep @ y) r))"

definition format_thousands :: "nat \<Rightarrow> string" where
  "format_thousands n = rev (intercalate '','' (group3 (rev (dec n))))"

section \<open>Module constants (lines 11 to 102)\<close>

definition LOCAL_OUTPUT :: "string dict" where
  "LOCAL_OUTPUT =
    [(''tracks'', ''data/processed/tracks.parquet''),
     (''genres'', ''data/processed/genres.parquet''),
     (''artists'', ''data/processed/artists.parquet'')]"

definition TRACKS_SCHEMA :: string where
  "TRACKS_SCHEMA = triple_quoted
    [''    track_id INT,'',
     ''    album_id INT,'',
     ''    album_title STRING,'',
     ''    album_url STRING,'',
     ''    artist_id INT,'',
     ''    artist_name STRING,'',
     ''    artist_url STRING,'',
     ''    artist_website STRING,'',
     ''    license_image_file STRING,'',
     ''    license_image_file_large STRING,'',
     ''    license_parent_id INT,'',
     ''    license_title STRING,'',
     ''    license_url STRING,'',
     ''    tags STRING,'',
     ''    track_bit_rate INT,'',
     ''    track_comments INT,'',
     ''    track_composer STRING,'',
     ''    track_copyright_c STRING,'',
     ''    track_copyright_p STRING,'',
     ''    track_date_created STRING,'',
     ''    track_date_recorded STRING,'',
     ''    track_disc_number INT,'',
     ''    track_duration STRING,'',
     ''    track_explicit STRING,'',
     ''    track_explicit_notes STRING,'',
     ''    track_favorites INT,'',
     ''    track_file STRING,'',
     ''    track_genres STRING,'',
     ''    track_image_file STRING,'',
     ''    track_information STRING,'',
     ''    track_instrumental INT,'',
     ''    track_interest INT,'',
     ''    track_language_code STRING,'',
     ''    track_listens INT,'',
     ''    track_lyricist STRING,'',
     ''    track_number INT,'',
     ''    track_publisher STRING,'',
     ''    track_title STRING,'',
     ''    track_url STRING'']"

definition GENRES_SCHEMA :: string where
  "GENRES_SCHEMA = triple_quoted
    [''    genre_id INT,'',
     ''    genre_color STRING,'',
     ''    genre_handle STRING,'',
     ''    genre_parent_id INT,'',
     ''    genre_title STRING'']"

definition ARTISTS_SCHEMA :: string where
  "ARTISTS_SCHEMA = triple_quoted
    [''    artist_id INT,'',
     ''    artist_active_year_begin INT,'',
     ''    artist_active_year_end INT,'',
     ''    artist_associated_labels STRING,'',
     ''    artist_bio STRING,'',
     ''    artist_comments INT,'',
     ''    artist_contact STRING,'',
     ''    artist_date_created STRING,'',
     ''    artist_donation_url STRING,'',
     ''    artist_favorites INT,'',
     ''    artist_flattr_name STRING,'',
     ''    artist_handle STRING,'',
     ''    artist_image_file STRING,'',
     ''    artist_images STRING,'',
     ''    artist_latitude DOUBLE,'',
     ''    artist_location STRING,'',
     ''    artist_longitude DOUBLE,'',
     ''    artist_members STRING,'',
     ''    artist_name STRING,'',
     ''    artist_paypal_name STRING,'',
     ''    artist_related_projects STRING,'',
     ''    artist_url STRING,'',
     ''    artist_website STRING,'',
     ''    artist_wikipedia_page STRING,'',
     ''    tags STRING'']"

text \<open>
  The declarations of a schema text: comma-separated columns, each a name followed by one of the
  three primitive types the module uses.
\<close>

datatype col_type = IntType | StringType | DoubleType

definition parse_type :: "string \<Rightarrow> col_type option" where
  "parse_type t =
     (if t = ''INT'' then Some IntType
      else if t = ''STRING'' then Some StringType
      else if t = ''DOUBLE'' then Some DoubleType
      else None)"

definition parse_column :: "string \<Rightarrow> error + (string \<times> col_type)" where
  "parse_column s =
     (case words s of
        [n, t] \<Rightarrow> (case parse_type t of
                      Some ty \<Rightarrow> Inr (n, ty)
                    | None \<Rightarrow> Inl (EngineError (''unsupported type: '' @ t)))
      | _ \<Rightarrow> Inl (EngineError (''cannot parse column: '' @ s)))"

fun collect :: "(error + 'a) list \<Rightarrow> error + 'a list" where
  "collect [] = Inr []"
| "collect (Inl e # _) = Inl e"
| "collect (Inr x # r) = (case collect r of Inl e \<Rightarrow> Inl e | Inr xs \<Rightarrow> Inr (x # xs))"

definition ddl_columns :: "string \<Rightarrow> error + (string \<times> col_type) list" where
  "ddl_columns ddl = collect (map parse_column (split_on CHR '','' ddl))"

definition column_count :: "string \<Rightarrow> nat option" where
  "column_count ddl = (case ddl_columns ddl of Inl _ \<Rightarrow> None | Inr cs \<Rightarrow> Some (length cs))"

section \<open>The process environment and the import of the module (lines 1 to 18)\<close>

type_synonym environ = "string \<Rightarrow> string option"

definition getenv :: "environ \<Rightarrow> string \<Rightarrow> string option" where
  "getenv env k = env k"

definition getenv_default :: "environ \<Rightarrow> string \<Rightarrow> string \<Rightarrow> string" where
  "getenv_default env k d = (case env k of None \<Rightarrow> d | Some v \<Rightarrow> v)"

text \<open>
  \<^verbatim>\<open>load_dotenv()\<close> adds the variables of the \<^verbatim>\<open>.env\<close> file (here the map \<open>dotenv\<close>) that the
  environment does not already hold.
\<close>

definition load_dotenv :: "environ \<Rightarrow> environ \<Rightarrow> environ" where
  "load_dotenv dotenv env = (\<lambda>k. case env k of Some v \<Rightarrow> Some v | None \<Rightarrow> dotenv k)"

text \<open>The module-level names that depend on the environment, bound once when the module is imported.\<close>

record globals =
  S3_BUCKET :: string
  AWS_REGION :: string
  S3_INPUT :: "string dict"

definition import_Ingestion :: "environ \<Rightarrow> environ \<Rightarrow> environ \<times> globals" where
  "import_Ingestion dotenv env =
     (let env1 = env(''CONTAINER_ID'' := None);
          env2 = load_dotenv dotenv env1;
          bucket = getenv_default env2 ''S3_BUCKET'' ''musicrec-data'';
          region = getenv_default env2 ''AWS_REGION'' ''ap-south-1''
      in (env2,
          \<lparr>S3_BUCKET = bucket,
           AWS_REGION = region,
           S3_INPUT =
             [(''tracks'', ''s3a://'' @ bucket @ ''/raw_tracks.csv''),
              (''genres'', ''s3a://'' @ bucket @ ''/raw_genres.csv''),
              (''artists'', ''s3a://'' @ bucket @ ''/raw_artists.csv'')]\<rparr>))"

section \<open>The compute engine and the world it acts on\<close>

text \<open>
  The session builder, the reader and the writer are the engine's configuration objects; the module
  only fills them in. A data frame is lazy: it is the plan (session, reader, path) and is evaluated
  by each action on it.
\<close>

record builder =
  appName :: string
  master :: string
  config :: "string dict"

record session = builder +
  logLevel :: "string option"

record reader =
  fmt :: string
  options :: "string dict"
  schema :: "string option"

record writer =
  save_mode :: string
  woptions :: "string dict"

record dataframe =
  df_session :: session
  df_reader :: reader
  df_path :: string

text \<open>One write job leaves one batch of rows, compressed with one codec.\<close>

record 'r batch =
  rows :: "'r list"
  codec :: string

datatype event =
    Print string
  | Makedirs string
  | GetOrCreate builder
  | SetLogLevel string
  | Load reader string
  | Count reader string
  | Save writer string

text \<open>
  The world: the process environment, the object store (URI to text), the local file system (the
  directories, and for each dataset path the batches it holds) and the trace of effects in the
  order they happened.
\<close>

record 'r world =
  environ :: environ
  object_store :: "string \<Rightarrow> string option"
  local_dirs :: "string set"
  local_files :: "string \<Rightarrow> 'r batch list option"
  trace :: "event list"

text \<open>
  What the module cannot decide is a parameter: whether the session starts, whether a schema text
  is accepted, which rows a reader makes of a text (or which error), whether a local write or a
  directory creation fails, and what an aborted write job leaves at its destination.
\<close>

record 'r engine =
  start_fault :: "builder \<Rightarrow> error option"
  schema_fault :: "string \<Rightarrow> error option"
  scan :: "session \<Rightarrow> reader \<Rightarrow> string \<Rightarrow> error + 'r list"
  write_fault :: "string \<Rightarrow> error option"
  write_abort :: "string \<Rightarrow> 'r batch list option \<Rightarrow> 'r batch list option"
  makedirs_fault :: "string \<Rightarrow> error option"

subsection \<open>Actions: state passing with exceptions\<close>

type_synonym ('r, 'a) action = "'r world \<Rightarrow> 'r world \<times> (error + 'a)"

definition and_then :: "('r, 'a) action \<Rightarrow> ('a \<Rightarrow> ('r, 'b) action) \<Rightarrow> ('r, 'b) action" where
  "and_then f g w = (case f w of (w', Inl e) \<Rightarrow> (w', Inl e) | (w', Inr a) \<Rightarrow> g a w')"

definition return :: "'a \<Rightarrow> ('r, 'a) action" where
  "return a w = (w, Inr a)"

definition raise :: "error \<Rightarrow> ('r, 'a) action" where
  "raise e w = (w, Inl e)"

definition lift :: "error + 'a \<Rightarrow> ('r, 'a) action" where
  "lift r w = (w, r)"

definition emit :: "event \<Rightarrow> ('r, unit) action" where
  "emit ev w = (w\<lparr>trace := trace w @ [ev]\<rparr>, Inr ())"

definition print :: "string \<Rightarrow> ('r, unit) action" where
  "print s = emit (Print s)"

subsection \<open>Library calls\<close>

definition makedirs :: "'r engine \<Rightarrow> string \<Rightarrow> bool \<Rightarrow> ('r, unit) action" where
  "makedirs eng path exist_ok =
     and_then (emit (Makedirs path)) (\<lambda>_ w.
       if path \<in> local_dirs w then
         (if exist_ok then (w, Inr ()) else (w, Inl (OSError (''File exists: '' @ path))))
       else (case makedirs_fault eng path of
               Some e \<Rightarrow> (w, Inl e)
             | None \<Rightarrow> (w\<lparr>local_dirs := insert path (local_dirs w)\<rparr>, Inr ())))"

definition getOrCreate :: "'r engine \<Rightarrow> builder \<Rightarrow> ('r, session) action" where
  "getOrCreate eng b =
     and_then (emit (GetOrCreate b)) (\<lambda>_.
       case start_fault eng b of
         Some e \<Rightarrow> raise e
       | None \<Rightarrow> return (builder.extend b \<lparr>logLevel = None\<rparr>))"

definition setLogLevel :: "session \<Rightarrow> string \<Rightarrow> ('r, session) action" where
  "setLogLevel spark level =
     and_then (emit (SetLogLevel level)) (\<lambda>_. return (spark\<lparr>logLevel := Some level\<rparr>))"

definition with_schema :: "'r engine \<Rightarrow> reader \<Rightarrow> string \<Rightarrow> error + reader" where
  "with_schema eng r ddl =
     (case schema_fault eng ddl of Some e \<Rightarrow> Inl e | None \<Rightarrow> Inr (r\<lparr>schema := Some ddl\<rparr>))"

definition read_format :: "string \<Rightarrow> reader" where
  "read_format f = \<lparr>fmt = f, options = [], schema = None\<rparr>"

definition reader_option :: "reader \<Rightarrow> string \<Rightarrow> string \<Rightarrow> reader" where
  "reader_option r k v = r\<lparr>options := setitem (options r) k v\<rparr>"

definition path_missing :: "string \<Rightarrow> error" where
  "path_missing path = EngineError (''Path does not exist: '' @ path)"

text \<open>\<^verbatim>\<open>reader.load(path)\<close> resolves the path at once and returns the plan.\<close>

definition load :: "session \<Rightarrow> reader \<Rightarrow> string \<Rightarrow> ('r, dataframe) action" where
  "load spark r path =
     and_then (emit (Load r path)) (\<lambda>_ w.
       case object_store w path of
         None \<Rightarrow> (w, Inl (path_missing path))
       | Some _ \<Rightarrow> (w, Inr \<lparr>df_session = spark, df_reader = r, df_path = path\<rparr>))"

text \<open>Evaluating a plan: the rows the engine's reader makes of the text now at the path.\<close>

definition materialize :: "'r engine \<Rightarrow> dataframe \<Rightarrow> 'r world \<Rightarrow> error + 'r list" where
  "materialize eng df w =
     (case object_store w (df_path df) of
        None \<Rightarrow> Inl (path_missing (df_path df))
      | Some text \<Rightarrow> scan eng (df_session df) (df_reader df) text)"

definition df_count :: "'r engine \<Rightarrow> dataframe \<Rightarrow> ('r, nat) action" where
  "df_count eng df =
     and_then (emit (Count (df_reader df) (df_path df))) (\<lambda>_ w.
       case materialize eng df w of
         Inl e \<Rightarrow> (w, Inl e)
       | Inr rs \<Rightarrow> (w, Inr (length rs)))"

datatype save_mode = Append | Overwrite | Ignore | ErrorIfExists

definition parse_save_mode :: "string \<Rightarrow> save_mode option" where
  "parse_save_mode s =
     (if s = ''append'' then Some Append
      else if s = ''overwrite'' then Some Overwrite
      else if s = ''ignore'' then Some Ignore
      else if s = ''error'' \<or> s = ''errorifexists'' then Some ErrorIfExists
      else None)"

text \<open>
  The codec of a parquet write: the writer's own \<^verbatim>\<open>compression\<close> option, else the session's
  \<^verbatim>\<open>spark.sql.parquet.compression.codec\<close>, else the engine's default.
\<close>

definition write_codec :: "session \<Rightarrow> writer \<Rightarrow> string" where
  "write_codec spark wr =
     (case map_of (woptions wr) ''compression'' of
        Some c \<Rightarrow> c
      | None \<Rightarrow> (case map_of (config spark) ''spark.sql.parquet.compression.codec'' of
                   Some c \<Rightarrow> c
                 | None \<Rightarrow> ''snappy''))"

definition put_file :: "string \<Rightarrow> 'r batch list option \<Rightarrow> 'r world \<Rightarrow> 'r world" where
  "put_file path v w = w\<lparr>local_files := (local_files w)(path := v)\<rparr>"

text \<open>
  \<^verbatim>\<open>df.write.mode(m).option(...).parquet(path)\<close>: the plan is evaluated again by the write job.
  A job that fails leaves at the destination what the engine's abort leaves there; no other path is
  touched.
\<close>

definition write_parquet :: "'r engine \<Rightarrow> dataframe \<Rightarrow> writer \<Rightarrow> string \<Rightarrow> ('r, unit) action" where
  "write_parquet eng df wr path =
     and_then (emit (Save wr path)) (\<lambda>_ w.
       case parse_save_mode (save_mode wr) of
         None \<Rightarrow> (w, Inl (EngineError (''Unknown save mode: '' @ save_mode wr)))
       | Some m \<Rightarrow>
           let old = local_files w path in
           if m = ErrorIfExists \<and> old \<noteq> None then
             (w, Inl (EngineError (''Path already exists: '' @ path)))
           else if m = Ignore \<and> old \<noteq> None then (w, Inr ())
           else
             (case materialize eng df w of
                Inl e \<Rightarrow> (put_file path (write_abort eng path old) w, Inl e)
              | Inr rs \<Rightarrow>
                  (case write_fault eng path of
                     Some e \<Rightarrow> (put_file path (write_abort eng path old) w, Inl e)
                   | None \<Rightarrow>
                       let new = \<lparr>rows = rs, codec = write_codec (df_session df) wr\<rparr>;
                           kept = (case (m, old) of (Append, Some bs) \<Rightarrow> bs | _ \<Rightarrow> [])
                       in (put_file path (Some (kept @ [new])) w, Inr ()))))"

section \<open>The functions of the module\<close>

subsection \<open>\<^verbatim>\<open>create_spark_session\<close> (lines 104 to 138)\<close>

definition credentials_error :: error where
  "credentials_error =
     ValueError (''AWS credentials not found. Set AWS_ACCESS_KEY_ID and '' @
                 ''AWS_SECRET_ACCESS_KEY in environment or .env file.'')"

definition session_builder :: "globals \<Rightarrow> string \<Rightarrow> string \<Rightarrow> builder" where
  "session_builder m aws_access_key aws_secret_key =
     \<lparr>appName = ''FMA_CSV_to_Parquet'',
      master = ''local[*]'',
      config =
        [(''spark.jars.packages'',
            ''org.apache.hadoop:hadoop-aws:3.3.4,'' @ ''com.amazonaws:aws-java-sdk-bundle:1.12.262''),
         (''spark.hadoop.fs.s3a.impl'', ''org.apache.hadoop.fs.s3a.S3AFileSystem''),
         (''spark.hadoop.fs.s3a.access.key'', aws_access_key),
         (''spark.hadoop.fs.s3a.secret.key'', aws_secret_key),
         (''spark.hadoop.fs.s3a.endpoint'', ''s3.'' @ AWS_REGION m @ ''.amazonaws.com''),
         (''spark.hadoop.fs.s3a.path.style.access'', ''true''),
         (''spark.hadoop.fs.s3a.connection.ssl.enabled'', ''true''),
         (''spark.driver.memory'', ''4g''),
         (''spark.sql.adaptive.enabled'', ''true''),
         (''spark.sql.parquet.compression.codec'', ''snappy'')]\<rparr>"

text \<open>
  After the check of line 110 both values are non-empty strings, so \<open>the\<close> is applied to
  \<open>Some\<close> only.
\<close>

definition create_spark_session :: "'r engine \<Rightarrow> globals \<Rightarrow> ('r, session) action" where
  "create_spark_session eng m w =
     (let aws_access_key = getenv (environ w) ''AWS_ACCESS_KEY_ID'';
          aws_secret_key = getenv (environ w) ''AWS_SECRET_ACCESS_KEY''
      in if py_not aws_access_key \<or> py_not aws_secret_key then raise credentials_error w
         else
           and_then (print (''Initializing Spark with S3 access to region: '' @ AWS_REGION m)) (\<lambda>_.
           and_then (getOrCreate eng (session_builder m (the aws_access_key) (the aws_secret_key))) (\<lambda>spark.
           and_then (setLogLevel spark ''WARN'') (\<lambda>spark.
           return spark))) w)"

subsection \<open>\<^verbatim>\<open>csv_to_parquet\<close> (lines 140 to 171)\<close>

definition double_quote :: string where
  "double_quote = [CHR 0x22]"

text \<open>The check mark of line 169, as its three UTF-8 bytes.\<close>

definition check_mark :: string where
  "check_mark = [CHR 0xE2, CHR 0x9C, CHR 0x93]"

definition overwrite_snappy :: writer where
  "overwrite_snappy = \<lparr>save_mode = ''overwrite'', woptions = setitem [] ''compression'' ''snappy''\<rparr>"

definition csv_to_parquet ::
  "'r engine \<Rightarrow> session \<Rightarrow> string \<Rightarrow> string \<Rightarrow> string \<Rightarrow> bool \<Rightarrow> ('r, pyval dict) action" where
  "csv_to_parquet eng spark input_path output_path schema_ddl multiline =
     and_then (print (newline # replicate 60 CHR ''='')) (\<lambda>_.
     and_then (print (''Source (S3):    '' @ input_path)) (\<lambda>_.
     and_then (print (''Output (Local): '' @ output_path)) (\<lambda>_.
     and_then (print (replicate 60 CHR ''='')) (\<lambda>_.
     and_then (lift (with_schema eng (reader_option (read_format ''csv'') ''header'' ''true'')
                       schema_ddl)) (\<lambda>reader.
     let reader =
       (if multiline then
          reader_option (reader_option (reader_option (reader_option reader
            ''multiLine'' ''true'')
            ''quote'' double_quote)
            ''escape'' double_quote)
            ''mode'' ''PERMISSIVE''
        else reader) in
     and_then (load spark reader input_path) (\<lambda>df.
     and_then (df_count eng df) (\<lambda>count.
     and_then (print (''Records read: '' @ format_thousands count)) (\<lambda>_.
     and_then (write_parquet eng df overwrite_snappy output_path) (\<lambda>_.
     and_then (print (check_mark @ '' Parquet written to '' @ output_path)) (\<lambda>_.
     return [(''count'', PyInt (int count)), (''output_path'', PyStr output_path)]))))))))))"

subsection \<open>\<^verbatim>\<open>convert_all\<close> (lines 173 to 202)\<close>

definition convert_all :: "'r engine \<Rightarrow> globals \<Rightarrow> session \<Rightarrow> ('r, pyval dict dict) action" where
  "convert_all eng m spark =
     and_then (makedirs eng ''data/processed'' True) (\<lambda>_.
     let results = [] in
     and_then (lift (subscript (S3_INPUT m) ''tracks'')) (\<lambda>input.
     and_then (lift (subscript LOCAL_OUTPUT ''tracks'')) (\<lambda>output.
     and_then (csv_to_parquet eng spark input output TRACKS_SCHEMA True) (\<lambda>r.
     let results = setitem results ''tracks'' r in
     and_then (lift (subscript (S3_INPUT m) ''genres'')) (\<lambda>input.
     and_then (lift (subscript LOCAL_OUTPUT ''genres'')) (\<lambda>output.
     and_then (csv_to_parquet eng spark input output GENRES_SCHEMA False) (\<lambda>r.
     let results = setitem results ''genres'' r in
     and_then (lift (subscript (S3_INPUT m) ''artists'')) (\<lambda>input.
     and_then (lift (subscript LOCAL_OUTPUT ''artists'')) (\<lambda>output.
     and_then (csv_to_parquet eng spark input output ARTISTS_SCHEMA True) (\<lambda>r.
     let results = setitem results ''artists'' r in
     return results))))))))))"

subsection \<open>\<^verbatim>\<open>run_pipeline\<close> (\<^verbatim>\<open>main.py\<close>)\<close>

definition run_pipeline :: "'r engine \<Rightarrow> globals \<Rightarrow> ('r, unit) action" where
  "run_pipeline eng m =
     and_then (print (replicate 60 CHR ''='')) (\<lambda>_.
     and_then (print ''Music Data ETL Pipeline'') (\<lambda>_.
     and_then (print (replicate 60 CHR ''='')) (\<lambda>_.
     and_then (create_spark_session eng m) (\<lambda>spark.
     and_then (convert_all eng m spark) (\<lambda>raw_parquet.
     return ())))))"

section \<open>A reference engine\<close>

text \<open>
  The engine's documented handling of delimited text, restricted to unquoted single-line records
  with a comma as separator: blank lines are skipped, the first record is dropped when the
  \<^verbatim>\<open>header\<close> option is \<^verbatim>\<open>true\<close>, and the parse mode is the reader's \<^verbatim>\<open>mode\<close> option, which
  defaults to \<^verbatim>\<open>PERMISSIVE\<close> when the reader has none. A record conforms to the schema when it has
  one token for each column and every non-empty token can be cast to its column's type. The
  permissive mode keeps every record, with a null in each cell it cannot fill; \<^verbatim>\<open>DROPMALFORMED\<close>
  drops the records that do not conform; \<^verbatim>\<open>FAILFAST\<close> fails on the first of them.
\<close>

datatype parse_mode = Permissive | DropMalformed | FailFast

definition parse_mode_of :: "string dict \<Rightarrow> parse_mode" where
  "parse_mode_of opts =
     (case map_of opts ''mode'' of
        None \<Rightarrow> Permissive
      | Some m \<Rightarrow>
          if m = ''FAILFAST'' then FailFast
          else if m = ''DROPMALFORMED'' then DropMalformed
          else Permissive)"

definition is_digit :: "char \<Rightarrow> bool" where
  "is_digit c = (c \<in> set ''0123456789'')"

definition digit_value :: "char \<Rightarrow> int" where
  "digit_value c = int (of_char c) - 48"

definition unsigned_part :: "string \<Rightarrow> bool \<times> string" where
  "unsigned_part s =
     (case s of
        [] \<Rightarrow> (False, [])
      | c # r \<Rightarrow> if c = CHR ''-'' then (True, r) else (False, s))"

definition int_of_text :: "string \<Rightarrow> int option" where
  "int_of_text s =
     (let (neg, ds) = unsigned_part s
      in if ds \<noteq> [] \<and> list_all is_digit ds
         then Some ((if neg then - 1 else 1) * foldl (\<lambda>a c. 10 * a + digit_value c) 0 ds)
         else None)"

definition decimal_text :: "string \<Rightarrow> bool" where
  "decimal_text s =
     (let (neg, ds) = unsigned_part s
      in case split_on CHR ''.'' ds of
           [a] \<Rightarrow> a \<noteq> [] \<and> list_all is_digit a
         | [a, b] \<Rightarrow> (a \<noteq> [] \<or> b \<noteq> []) \<and> list_all is_digit a \<and> list_all is_digit b
         | _ \<Rightarrow> False)"

definition castable :: "col_type \<Rightarrow> string \<Rightarrow> bool" where
  "castable t s =
     (case t of
        StringType \<Rightarrow> True
      | IntType \<Rightarrow>
          (case int_of_text s of
             Some v \<Rightarrow> - (2 ^ 31) \<le> v \<and> v < 2 ^ 31
           | None \<Rightarrow> False)
      | DoubleType \<Rightarrow> decimal_text s)"

definition conforms :: "(string \<times> col_type) list \<Rightarrow> string list \<Rightarrow> bool" where
  "conforms cols toks =
     (length toks = length cols \<and>
      list_all (\<lambda>(c, tok). tok = [] \<or> castable (snd c) tok) (zip cols toks))"

fun permissive_row :: "(string \<times> col_type) list \<Rightarrow> string list \<Rightarrow> string option list" where
  "permissive_row [] toks = []"
| "permissive_row (c # cols) [] = None # permissive_row cols []"
| "permissive_row (c # cols) (tok # toks) =
     (if tok \<noteq> [] \<and> castable (snd c) tok then Some tok else None) # permissive_row cols toks"

definition csv_records :: "string dict \<Rightarrow> string \<Rightarrow> string list list" where
  "csv_records opts text =
     (let recs = map (split_on CHR '','') (filter (\<lambda>l. l \<noteq> []) (split_on newline text))
      in if map_of opts ''header'' = Some ''true'' then drop 1 recs else recs)"

definition csv_scan :: "session \<Rightarrow> reader \<Rightarrow> string \<Rightarrow> error + string option list list" where
  "csv_scan spark r text =
     (case schema r of
        None \<Rightarrow> Inl (EngineError ''schema inference is not covered'')
      | Some ddl \<Rightarrow>
          (case ddl_columns ddl of
             Inl e \<Rightarrow> Inl e
           | Inr cols \<Rightarrow>
               let recs = csv_records (options r) text in
               (case parse_mode_of (options r) of
                  Permissive \<Rightarrow> Inr (map (permissive_row cols) recs)
                | DropMalformed \<Rightarrow> Inr (map (permissive_row cols) (filter (conforms cols) recs))
                | FailFast \<Rightarrow>
                    if list_all (conforms cols) recs then Inr (map (permissive_row cols) recs)
                    else Inl (EngineError ''Malformed records are detected in record parsing''))))"

definition spark_csv :: "string option list engine" where
  "spark_csv =
     \<lparr>start_fault = (\<lambda>_. None),
      schema_fault = (\<lambda>ddl. case ddl_columns ddl of Inl e \<Rightarrow> Some e | Inr _ \<Rightarrow> None),
      scan = csv_scan,
      write_fault = (\<lambda>_. None),
      write_abort = (\<lambda>_ _. None),
      makedirs_fault = (\<lambda>_. None)\<rparr>"

section \<open>Derived notions used in the statements\<close>

text \<open>The reader that lines 147 to 157 hand to \<^verbatim>\<open>load\<close>, as a function of the schema text and the flag.\<close>

definition csv_reader :: "string \<Rightarrow> bool \<Rightarrow> reader" where
  "csv_reader schema_ddl multiline =
     \<lparr>fmt = ''csv'',
      options =
        (if multiline then
           [(''header'', ''true''), (''multiLine'', ''true''), (''quote'', double_quote),
            (''escape'', double_quote), (''mode'', ''PERMISSIVE'')]
         else [(''header'', ''true'')]),
      schema = Some schema_ddl\<rparr>"

text \<open>The four lines printed when a conversion starts (lines 142 to 145).\<close>

definition banner :: "string \<Rightarrow> string \<Rightarrow> event list" where
  "banner input_path output_path =
     [Print (newline # replicate 60 CHR ''=''),
      Print (''Source (S3):    '' @ input_path),
      Print (''Output (Local): '' @ output_path),
      Print (replicate 60 CHR ''='')]"

definition log :: "event list \<Rightarrow> 'r world \<Rightarrow> 'r world" where
  "log evs w = w\<lparr>trace := trace w @ evs\<rparr>"

text \<open>The effects a call has added to the trace.\<close>

definition new_events :: "'r world \<Rightarrow> 'r world \<Rightarrow> event list" where
  "new_events w w' = drop (length (trace w)) (trace w')"

fun loads :: "event list \<Rightarrow> (reader \<times> string) list" where
  "loads [] = []"
| "loads (Load r p # es) = (r, p) # loads es"
| "loads (_ # es) = loads es"

fun saves :: "event list \<Rightarrow> (writer \<times> string) list" where
  "saves [] = []"
| "saves (Save wr p # es) = (wr, p) # saves es"
| "saves (_ # es) = saves es"

text \<open>Every \<open>Save\<close> of a trace comes after a \<open>Count\<close> (the flag: a \<open>Count\<close> has been seen).\<close>

fun count_before_save :: "bool \<Rightarrow> event list \<Rightarrow> bool" where
  "count_before_save seen [] = True"
| "count_before_save seen (Count r p # es) = count_before_save True es"
| "count_before_save seen (Save wr p # es) = (seen \<and> count_before_save seen es)"
| "count_before_save seen (_ # es) = count_before_save seen es"

text \<open>The source address the import binds to a dataset name (lines 14 to 18).\<close>

definition source_uri :: "globals \<Rightarrow> string \<Rightarrow> string" where
  "source_uri m name = ''s3a://'' @ S3_BUCKET m @ ''/raw_'' @ name @ ''.csv''"

text \<open>A credential value that line 110 rejects: unset, or the empty string.\<close>

definition unset_or_empty :: "string option \<Rightarrow> bool" where
  "unset_or_empty v = (v = None \<or> v = Some [])"

text \<open>The outcome of an action, seen in another environment.\<close>

definition with_environ :: "environ \<Rightarrow> 'r world \<times> 'a \<Rightarrow> 'r world \<times> 'a" where
  "with_environ e x = (case x of (w, r) \<Rightarrow> (w\<lparr>environ := e\<rparr>, r))"

section \<open>A concrete run\<close>

text \<open>
  An environment with both credentials and neither bucket nor region, an empty \<^verbatim>\<open>.env\<close> file, and an
  object store that holds three small files. The second record of the genres file has two tokens
  for five columns, and its first token is not an integer.
\<close>

definition example_environ :: environ where
  "example_environ =
     (\<lambda>k. if k = ''AWS_ACCESS_KEY_ID'' then Some ''AKIAEXAMPLE''
          else if k = ''AWS_SECRET_ACCESS_KEY'' then Some ''example-secret''
          else None)"

definition example_globals :: globals where
  "example_globals = snd (import_Ingestion (\<lambda>_. None) example_environ)"

definition example_session :: session where
  "example_session =
     builder.extend (session_builder example_globals ''AKIAEXAMPLE'' ''example-secret'')
       \<lparr>logLevel = Some ''WARN''\<rparr>"

definition unlines :: "string list \<Rightarrow> string" where
  "unlines ls = concat (map (\<lambda>l. l @ [newline]) ls)"

definition example_tracks_text :: string where
  "example_tracks_text = unlines [''track_id,album_id,album_title'', ''2,1,AWOL - A Way Of Life'']"

definition example_genres_text :: string where
  "example_genres_text =
     unlines [''genre_id,genre_color,genre_handle,genre_parent_id,genre_title'',
              ''1,#006666,Avant-Garde,38,Avant-Garde'',
              ''abc,#ffffff'']"

definition example_artists_text :: string where
  "example_artists_text = unlines [''artist_id,artist_active_year_begin'', ''1,2006'']"

definition example_store :: "string \<Rightarrow> string option" where
  "example_store uri =
     (if uri = ''s3a://musicrec-data/raw_tracks.csv'' then Some example_tracks_text
      else if uri = ''s3a://musicrec-data/raw_genres.csv'' then Some example_genres_text
      else if uri = ''s3a://musicrec-data/raw_artists.csv'' then Some example_artists_text
      else None)"

definition example_world :: "string option list world" where
  "example_world =
     \<lparr>environ = example_environ,
      object_store = example_store,
      local_dirs = {},
      local_files = (\<lambda>_. None),
      trace = []\<rparr>"

text \<open>The same store without the genres file, and an engine whose reads fail while counting.\<close>

definition example_world_no_genres :: "string option list world" where
  "example_world_no_genres =
     example_world\<lparr>object_store :=
       (\<lambda>uri. if uri = ''s3a://musicrec-data/raw_genres.csv'' then None else example_store uri)\<rparr>"

definition unreachable_csv :: "string option list engine" where
  "unreachable_csv = spark_csv\<lparr>scan := (\<lambda>_ _ _. Inl (EngineError ''connection reset''))\<rparr>"

definition example_world_no_artists :: "string option list world" where
  "example_world_no_artists =
     example_world\<lparr>object_store :=
       (\<lambda>uri. if uri = ''s3a://musicrec-data/raw_artists.csv'' then None else example_store uri)\<rparr>"

text \<open>The environment after someone has set another bucket and region, once the module is imported.\<close>

definition example_environ_changed :: environ where
  "example_environ_changed =
     (\<lambda>k. if k = ''S3_BUCKET'' then Some ''another-bucket''
          else if k = ''AWS_REGION'' then Some ''us-east-1''
          else example_environ k)"

text \<open>An environment whose secret key is the empty string.\<close>

definition example_environ_empty_secret :: environ where
  "example_environ_empty_secret =
     (\<lambda>k. if k = ''AWS_SECRET_ACCESS_KEY'' then Some [] else example_environ k)"

text \<open>
  An import that finds its own values: the environment names a bucket (and a container), the
  \<^verbatim>\<open>.env\<close> file names a region and another bucket, which the environment's bucket overrides. The
  object store holds the three files under that bucket.
\<close>

definition example_environ_custom :: environ where
  "example_environ_custom =
     (\<lambda>k. if k = ''S3_BUCKET'' then Some ''my-bucket''
          else if k = ''CONTAINER_ID'' then Some ''0123abcd''
          else example_environ k)"

definition example_dotenv :: environ where
  "example_dotenv =
     (\<lambda>k. if k = ''AWS_REGION'' then Some ''eu-west-1''
          else if k = ''S3_BUCKET'' then Some ''dotenv-bucket''
          else None)"

definition example_globals_custom :: globals where
  "example_globals_custom = snd (import_Ingestion example_dotenv example_environ_custom)"

definition example_session_custom :: session where
  "example_session_custom =
     builder.extend (session_builder example_globals_custom ''AKIAEXAMPLE'' ''example-secret'')
       \<lparr>logLevel = Some ''WARN''\<rparr>"

definition example_store_custom :: "string \<Rightarrow> string option" where
  "example_store_custom uri =
     (if uri = ''s3a://my-bucket/raw_tracks.csv'' then Some example_tracks_text
      else if uri = ''s3a://my-bucket/raw_genres.csv'' then Some example_genres_text
      else if uri = ''s3a://my-bucket/raw_artists.csv'' then Some example_artists_text
      else None)"

definition example_world_custom :: "string option list world" where
  "example_world_custom =
     \<lparr>environ = fst (import_Ingestion example_dotenv example_environ_custom),
      object_store = example_store_custom,
      local_dirs = {},
      local_files = (\<lambda>_. None),
      trace = []\<rparr>"

section \<open>The declared schemas\<close>

lemma ddl_columns_TRACKS:
  "ddl_columns TRACKS_SCHEMA =
     Inr [(''track_id'', IntType), (''album_id'', IntType), (''album_title'', StringType),
          (''album_url'', StringType), (''artist_id'', IntType), (''artist_name'', StringType),
          (''artist_url'', StringType), (''artist_website'', StringType),
          (''license_image_file'', StringType), (''license_image_file_large'', StringType),
          (''license_parent_id'', IntType), (''license_title'', StringType),
          (''license_url'', StringType), (''tags'', StringType), (''track_bit_rate'', IntType),
          (''track_comments'', IntType), (''track_composer'', StringType),
          (''track_copyright_c'', StringType), (''track_copyright_p'', StringType),
          (''track_date_created'', StringType), (''track_date_recorded'', StringType),
          (''track_disc_number'', IntType), (''track_duration'', StringType),
          (''track_explicit'', StringType), (''track_explicit_notes'', StringType),
          (''track_favorites'', IntType), (''track_file'', StringType),
          (''track_genres'', StringType), (''track_image_file'', StringType),
          (''track_information'', StringType), (''track_instrumental'', IntType),
          (''track_interest'', IntType), (''track_language_code'', StringType),
          (''track_listens'', IntType), (''track_lyricist'', StringType),
          (''track_number'', IntType), (''track_publisher'', StringType),
          (''track_title'', StringType), (''track_url'', StringType)]"
  by code_simp

lemma ddl_columns_GENRES:
  "ddl_columns GENRES_SCHEMA =
     Inr [(''genre_id'', IntType), (''genre_color'', StringType), (''genre_handle'', StringType),
          (''genre_parent_id'', IntType), (''genre_title'', StringType)]"
  by code_simp

lemma ddl_columns_ARTISTS:
  "ddl_columns ARTISTS_SCHEMA =
     Inr [(''artist_id'', IntType), (''artist_active_year_begin'', IntType),
          (''artist_active_year_end'', IntType), (''artist_associated_labels'', StringType),
          (''artist_bio'', StringType), (''artist_comments'', IntType),
          (''artist_contact'', StringType), (''artist_date_created'', StringType),
          (''artist_donation_url'', StringType), (''artist_favorites'', IntType),
          (''artist_flattr_name'', StringType), (''artist_handle'', StringType),
          (''artist_image_file'', StringType), (''artist_images'', StringType),
          (''artist_latitude'', DoubleType), (''artist_location'', StringType),
          (''artist_longitude'', DoubleType), (''artist_members'', StringType),
          (''artist_name'', StringType), (''artist_paypal_name'', StringType),
          (''artist_related_projects'', StringType), (''artist_url'', StringType),
          (''artist_website'', StringType), (''artist_wikipedia_page'', StringType),
          (''tags'', StringType)]"
  by code_simp

lemma column_count_TRACKS: "column_count TRACKS_SCHEMA = Some 39"
  by (simp add: column_count_def ddl_columns_TRACKS)

lemma column_count_GENRES: "column_count GENRES_SCHEMA = Some 5"
  by (simp add: column_count_def ddl_columns_GENRES)

lemma column_count_ARTISTS: "column_count ARTISTS_SCHEMA = Some 25"
  by (simp add: column_count_def ddl_columns_ARTISTS)

section \<open>What one conversion does\<close>

lemma csv_to_parquet_unfold:
  "csv_to_parquet eng spark i out s ml w =
     (case schema_fault eng s of
        Some e \<Rightarrow> (log (banner i out) w, Inl e)
      | None \<Rightarrow>
         (case object_store w i of
            None \<Rightarrow> (log (banner i out @ [Load (csv_reader s ml) i]) w, Inl (path_missing i))
          | Some text \<Rightarrow>
             (case scan eng spark (csv_reader s ml) text of
                Inl e \<Rightarrow>
                  (log (banner i out @ [Load (csv_reader s ml) i, Count (csv_reader s ml) i]) w, Inl e)
              | Inr rs \<Rightarrow>
                 (case write_fault eng out of
                    Some e \<Rightarrow>
                      (put_file out (write_abort eng out (local_files w out))
                         (log (banner i out @ [Load (csv_reader s ml) i, Count (csv_reader s ml) i,
                            Print (''Records read: '' @ format_thousands (length rs)),
                            Save overwrite_snappy out]) w), Inl e)
                  | None \<Rightarrow>
                      (log [Print (check_mark @ '' Parquet written to '' @ out)]
                        (put_file out (Some [\<lparr>rows = rs, codec = ''snappy''\<rparr>])
                         (log (banner i out @ [Load (csv_reader s ml) i, Count (csv_reader s ml) i,
                            Print (''Records read: '' @ format_thousands (length rs)),
                            Save overwrite_snappy out]) w)),
                       Inr [(''count'', PyInt (int (length rs))), (''output_path'', PyStr out)])))))"
  by (simp add: csv_to_parquet_def and_then_def print_def emit_def lift_def with_schema_def
      reader_option_def read_format_def setitem_def load_def df_count_def materialize_def
      write_parquet_def overwrite_snappy_def parse_save_mode_def write_codec_def put_file_def
      return_def log_def banner_def csv_reader_def Let_def
      split: option.splits sum.splits)

lemma new_events_log [simp]: "new_events w (log evs w) = evs"
  by (simp add: new_events_def log_def)

lemma new_events_put_log [simp]: "new_events w (put_file p v (log evs w)) = evs"
  by (simp add: new_events_def log_def put_file_def)

lemma new_events_log_put_log [simp]:
  "new_events w (log evs' (put_file p v (log evs w))) = evs @ evs'"
  by (simp add: new_events_def log_def put_file_def)

lemma local_files_log [simp]: "local_files (log evs w) = local_files w"
  by (simp add: log_def)

lemma local_files_put_file [simp]: "local_files (put_file p v w) = (local_files w)(p := v)"
  by (simp add: put_file_def)

lemma object_store_log [simp]: "object_store (log evs w) = object_store w"
  by (simp add: log_def)

lemma object_store_put_file [simp]: "object_store (put_file p v w) = object_store w"
  by (simp add: put_file_def)

lemma loads_append: "loads (xs @ ys) = loads xs @ loads ys"
  by (induction xs rule: loads.induct) simp_all

lemma saves_append: "saves (xs @ ys) = saves xs @ saves ys"
  by (induction xs rule: saves.induct) simp_all

lemma loads_banner [simp]: "loads (banner i out) = []"
  by (simp add: banner_def)

lemma saves_banner [simp]: "saves (banner i out) = []"
  by (simp add: banner_def)

lemma count_before_save_banner [simp]:
  "count_before_save b (banner i out @ es) = count_before_save b es"
  by (simp add: banner_def)

lemma count_before_save_banner_only [simp]: "count_before_save b (banner i out)"
  by (simp add: banner_def)

section \<open>What the orchestration does\<close>

lemma S3_INPUT_import:
  "S3_INPUT (snd (import_Ingestion dotenv env)) =
     [(''tracks'', source_uri (snd (import_Ingestion dotenv env)) ''tracks''),
      (''genres'', source_uri (snd (import_Ingestion dotenv env)) ''genres''),
      (''artists'', source_uri (snd (import_Ingestion dotenv env)) ''artists'')]"
  by (simp add: import_Ingestion_def source_uri_def Let_def)

lemma convert_all_unfold:
  assumes "m = snd (import_Ingestion dotenv env)"
  shows "convert_all eng m spark =
     and_then (makedirs eng ''data/processed'' True) (\<lambda>_.
     and_then (csv_to_parquet eng spark (source_uri m ''tracks'') ''data/processed/tracks.parquet''
                 TRACKS_SCHEMA True) (\<lambda>r1.
     and_then (csv_to_parquet eng spark (source_uri m ''genres'') ''data/processed/genres.parquet''
                 GENRES_SCHEMA False) (\<lambda>r2.
     and_then (csv_to_parquet eng spark (source_uri m ''artists'') ''data/processed/artists.parquet''
                 ARTISTS_SCHEMA True) (\<lambda>r3.
     return [(''tracks'', r1), (''genres'', r2), (''artists'', r3)]))))"
  unfolding convert_all_def assms S3_INPUT_import
  by (simp add: subscript_def lift_def and_then_def LOCAL_OUTPUT_def setitem_def Let_def
      return_def fun_eq_iff split: prod.splits sum.splits)

lemma makedirs_unfold:
  "makedirs eng path exist_ok w =
     (if path \<in> local_dirs w then
        (if exist_ok then (log [Makedirs path] w, Inr ())
         else (log [Makedirs path] w, Inl (OSError (''File exists: '' @ path))))
      else (case makedirs_fault eng path of
              Some e \<Rightarrow> (log [Makedirs path] w, Inl e)
            | None \<Rightarrow> ((log [Makedirs path] w)\<lparr>local_dirs := insert path (local_dirs w)\<rparr>, Inr ())))"
  by (simp add: makedirs_def and_then_def emit_def log_def split: option.splits)

lemma makedirs_trace:
  "makedirs eng path exist_ok w = (w', r) \<Longrightarrow>
     trace w' = trace w @ [Makedirs path] \<and> local_files w' = local_files w \<and>
     object_store w' = object_store w"
  by (auto simp add: makedirs_unfold log_def split: if_splits option.splits)

lemma csv_to_parquet_trace:
  "csv_to_parquet eng spark i out s ml w = (w', r) \<Longrightarrow>
     trace w' = trace w @ new_events w w' \<and> object_store w' = object_store w"
  by (auto simp add: csv_to_parquet_unfold new_events_def log_def put_file_def
      split: option.splits sum.splits)

lemma csv_to_parquet_frame:
  "csv_to_parquet eng spark i out s ml w = (w', r) \<Longrightarrow> p \<noteq> out \<Longrightarrow>
     local_files w' p = local_files w p"
  by (auto simp add: csv_to_parquet_unfold split: option.splits sum.splits)

lemma csv_to_parquet_success:
  "csv_to_parquet eng spark i out s ml w = (w', Inr res) \<Longrightarrow>
     \<exists>rs. local_files w' = (local_files w)(out := Some [\<lparr>rows = rs, codec = ''snappy''\<rparr>]) \<and>
          loads (new_events w w') = [(csv_reader s ml, i)] \<and>
          saves (new_events w w') = [(overwrite_snappy, out)] \<and>
          object_store w i \<noteq> None \<and> schema_fault eng s = None \<and> write_fault eng out = None"
  by (auto simp add: csv_to_parquet_unfold loads_append saves_append
      split: option.splits sum.splits)

lemma create_spark_session_unfold:
  "create_spark_session eng m w =
     (if py_not (environ w ''AWS_ACCESS_KEY_ID'') \<or> py_not (environ w ''AWS_SECRET_ACCESS_KEY'')
      then (w, Inl credentials_error)
      else
        (let b = session_builder m (the (environ w ''AWS_ACCESS_KEY_ID''))
                   (the (environ w ''AWS_SECRET_ACCESS_KEY''));
             hello = Print (''Initializing Spark with S3 access to region: '' @ AWS_REGION m)
         in case start_fault eng b of
              Some e \<Rightarrow> (log [hello, GetOrCreate b] w, Inl e)
            | None \<Rightarrow> (log [hello, GetOrCreate b, SetLogLevel ''WARN''] w,
                        Inr (builder.extend b \<lparr>logLevel = Some ''WARN''\<rparr>))))"
  by (simp add: create_spark_session_def getenv_def raise_def and_then_def print_def emit_def
      getOrCreate_def setLogLevel_def return_def log_def Let_def builder.extend_def
      split: option.splits)

section \<open>The concrete run, evaluated\<close>

lemma example_globals_eq:
  "example_globals =
     \<lparr>S3_BUCKET = ''musicrec-data'', AWS_REGION = ''ap-south-1'',
      S3_INPUT = [(''tracks'', ''s3a://musicrec-data/raw_tracks.csv''),
                  (''genres'', ''s3a://musicrec-data/raw_genres.csv''),
                  (''artists'', ''s3a://musicrec-data/raw_artists.csv'')]\<rparr>"
  by (simp add: example_globals_def import_Ingestion_def load_dotenv_def getenv_default_def
      example_environ_def Let_def)

lemma spark_csv_accepts [simp]:
  "schema_fault spark_csv TRACKS_SCHEMA = None"
  "schema_fault spark_csv GENRES_SCHEMA = None"
  "schema_fault spark_csv ARTISTS_SCHEMA = None"
  by (simp_all add: spark_csv_def ddl_columns_TRACKS ddl_columns_GENRES ddl_columns_ARTISTS)

lemma spark_csv_no_faults [simp]:
  "write_fault spark_csv p = None" "makedirs_fault spark_csv p = None"
  "start_fault spark_csv b = None" "scan spark_csv = csv_scan"
  by (simp_all add: spark_csv_def)

lemma example_genres_records:
  "csv_records [(''header'', ''true'')] example_genres_text =
     [[''1'', ''#006666'', ''Avant-Garde'', ''38'', ''Avant-Garde''], [''abc'', ''#ffffff'']]"
  by (simp add: csv_records_def example_genres_text_def unlines_def split_on_def newline_def)

lemma example_tracks_records:
  "csv_records (options (csv_reader s True)) example_tracks_text = [[''2'', ''1'', ''AWOL - A Way Of Life'']]"
  by (simp add: csv_records_def example_tracks_text_def unlines_def split_on_def newline_def
      csv_reader_def)

lemma example_artists_records:
  "csv_records (options (csv_reader s True)) example_artists_text = [[''1'', ''2006'']]"
  by (simp add: csv_records_def example_artists_text_def unlines_def split_on_def newline_def
      csv_reader_def)

lemma castable_examples [simp]:
  "castable IntType ''1''" "castable IntType ''2''" "castable IntType ''38''"
  "castable IntType ''2006''" "\<not> castable IntType ''abc''" "castable StringType s"
  by (simp_all add: castable_def int_of_text_def unsigned_part_def is_digit_def digit_value_def)

lemma example_genres_scan:
  "csv_scan spark (csv_reader GENRES_SCHEMA False) example_genres_text =
     Inr [[Some ''1'', Some ''#006666'', Some ''Avant-Garde'', Some ''38'', Some ''Avant-Garde''],
          [None, Some ''#ffffff'', None, None, None]]"
  by (simp add: csv_scan_def csv_reader_def ddl_columns_GENRES parse_mode_of_def
      example_genres_records)

lemma example_tracks_scan:
  "csv_scan spark (csv_reader TRACKS_SCHEMA True) example_tracks_text =
     Inr [Some ''2'' # Some ''1'' # Some ''AWOL - A Way Of Life'' # replicate 36 None]"
  using example_tracks_records [of TRACKS_SCHEMA]
  by (simp add: csv_scan_def csv_reader_def ddl_columns_TRACKS parse_mode_of_def
      numeral_eq_Suc)

lemma example_artists_scan:
  "csv_scan spark (csv_reader ARTISTS_SCHEMA True) example_artists_text =
     Inr [Some ''1'' # Some ''2006'' # replicate 23 None]"
  using example_artists_records [of ARTISTS_SCHEMA]
  by (simp add: csv_scan_def csv_reader_def ddl_columns_ARTISTS parse_mode_of_def
      numeral_eq_Suc)

lemma example_globals_import: "example_globals = snd (import_Ingestion (\<lambda>_. None) example_environ)"
  by (simp add: example_globals_def)

lemma example_store_lookups [simp]:
  "object_store example_world ''s3a://musicrec-data/raw_tracks.csv'' = Some example_tracks_text"
  "object_store example_world ''s3a://musicrec-data/raw_genres.csv'' = Some example_genres_text"
  "object_store example_world ''s3a://musicrec-data/raw_artists.csv'' = Some example_artists_text"
  "object_store example_world_no_genres ''s3a://musicrec-data/raw_tracks.csv'' = Some example_tracks_text"
  "object_store example_world_no_genres ''s3a://musicrec-data/raw_genres.csv'' = None"
  by (simp_all add: example_world_def example_world_no_genres_def example_store_def)

lemma example_world_fields [simp]:
  "local_files example_world = (\<lambda>_. None)" "trace example_world = []"
  "local_dirs example_world = {}" "environ example_world = example_environ"
  "local_files example_world_no_genres = (\<lambda>_. None)" "trace example_world_no_genres = []"
  "local_dirs example_world_no_genres = {}"
  by (simp_all add: example_world_def example_world_no_genres_def)

lemma example_source_uris [simp]:
  "source_uri example_globals ''tracks'' = ''s3a://musicrec-data/raw_tracks.csv''"
  "source_uri example_globals ''genres'' = ''s3a://musicrec-data/raw_genres.csv''"
  "source_uri example_globals ''artists'' = ''s3a://musicrec-data/raw_artists.csv''"
  by (simp_all add: source_uri_def example_globals_eq)

lemma example_genres_result:
  "snd (csv_to_parquet spark_csv example_session ''s3a://musicrec-data/raw_genres.csv''
          ''data/processed/genres.parquet'' GENRES_SCHEMA False example_world) =
     Inr [(''count'', PyInt 2), (''output_path'', PyStr ''data/processed/genres.parquet'')]"
  by (simp add: csv_to_parquet_unfold example_genres_scan)

lemma example_convert_all_result:
  "snd (convert_all spark_csv example_globals example_session example_world) =
     Inr [(''tracks'', [(''count'', PyInt 1), (''output_path'', PyStr ''data/processed/tracks.parquet'')]),
          (''genres'', [(''count'', PyInt 2), (''output_path'', PyStr ''data/processed/genres.parquet'')]),
          (''artists'', [(''count'', PyInt 1), (''output_path'', PyStr ''data/processed/artists.parquet'')])]"
  by (simp add: convert_all_unfold [OF example_globals_import] and_then_def makedirs_unfold
      csv_to_parquet_unfold example_genres_scan example_tracks_scan example_artists_scan
      return_def log_def put_file_def)

lemma makedirs_environ:
  "makedirs eng p ok (w\<lparr>environ := e\<rparr>) = with_environ e (makedirs eng p ok w)"
  by (simp add: makedirs_unfold with_environ_def log_def split: option.splits)

lemma csv_to_parquet_environ:
  "csv_to_parquet eng spark i out s ml (w\<lparr>environ := e\<rparr>) =
     with_environ e (csv_to_parquet eng spark i out s ml w)"
  by (simp add: csv_to_parquet_unfold with_environ_def log_def put_file_def
      split: option.splits sum.splits)

lemma and_then_environ:
  assumes "\<And>w. f (w\<lparr>environ := e\<rparr>) = with_environ e (f w)"
    and "\<And>x w. g x (w\<lparr>environ := e\<rparr>) = with_environ e (g x w)"
  shows "and_then f g (w\<lparr>environ := e\<rparr>) = with_environ e (and_then f g w)"
  using assms by (simp add: and_then_def with_environ_def split: prod.splits sum.splits)

lemma return_environ: "return x (w\<lparr>environ := e\<rparr>) = with_environ e (return x w)"
  by (simp add: return_def with_environ_def)

lemma convert_all_environ:
  assumes "m = snd (import_Ingestion dotenv env)"
  shows "convert_all eng m spark (w\<lparr>environ := e\<rparr>) = with_environ e (convert_all eng m spark w)"
  unfolding convert_all_unfold [OF assms]
  by (intro and_then_environ makedirs_environ csv_to_parquet_environ return_environ)

lemma genres_run:
  "csv_to_parquet eng spark i out s ml w = (fst (csv_to_parquet eng spark i out s ml w), r) \<longleftrightarrow>
     snd (csv_to_parquet eng spark i out s ml w) = r"
  by (simp add: prod_eq_iff)

lemma unreachable_csv_fields [simp]:
  "schema_fault unreachable_csv GENRES_SCHEMA = None"
  "scan unreachable_csv sp r t = Inl (EngineError ''connection reset'')"
  by (simp_all add: unreachable_csv_def spark_csv_def ddl_columns_GENRES)

lemma example_no_artists_lookups [simp]:
  "object_store example_world_no_artists ''s3a://musicrec-data/raw_tracks.csv'' = Some example_tracks_text"
  "object_store example_world_no_artists ''s3a://musicrec-data/raw_genres.csv'' = Some example_genres_text"
  "object_store example_world_no_artists ''s3a://musicrec-data/raw_artists.csv'' = None"
  "local_files example_world_no_artists = (\<lambda>_. None)" "trace example_world_no_artists = []"
  "local_dirs example_world_no_artists = {}"
  by (simp_all add: example_world_def example_world_no_artists_def example_store_def)

lemma example_globals_fields [simp]:
  "S3_BUCKET example_globals = ''musicrec-data''" "AWS_REGION example_globals = ''ap-south-1''"
  by (simp_all add: example_globals_eq)

lemma example_session_result:
  "snd (create_spark_session spark_csv example_globals example_world) = Inr example_session"
  by (simp add: create_spark_session_unfold py_not_def example_environ_def example_session_def
      Let_def)

lemma convert_all_run:
  "convert_all eng m spark w = (fst (convert_all eng m spark w), r) \<longleftrightarrow>
     snd (convert_all eng m spark w) = r"
  by (simp add: prod_eq_iff)

lemma snd_with_environ [simp]: "snd (with_environ e x) = snd x"
  by (simp add: with_environ_def split: prod.splits)

section \<open>The claims\<close>

text \<open>
  The statements below are about the functions of the module over any engine, unless they name the
  reference engine \<open>spark_csv\<close>. Within one call the object store does not change: nothing
  of the module writes to it, and no other process is part of the model.
\<close>

text \<open>
  Claim C1. A conversion that returns has read the text at the source address, and the engine's
  reader has made rows of it under the given schema and flag. The result is the dictionary with
  exactly the keys \<^verbatim>\<open>count\<close> and \<^verbatim>\<open>output_path\<close>, in that order: the count is the number of those
  rows, the path is the argument unchanged, and the destination holds one batch with exactly
  those rows.
\<close>

theorem c1_result_and_count:
  assumes "csv_to_parquet eng spark input_path output_path schema_ddl multiline w = (w', Inr res)"
  shows "\<exists>text rs.
           object_store w input_path = Some text \<and>
           scan eng spark (csv_reader schema_ddl multiline) text = Inr rs \<and>
           res = [(''count'', PyInt (int (length rs))), (''output_path'', PyStr output_path)] \<and>
           keys res = [''count'', ''output_path''] \<and>
           local_files w' output_path = Some [\<lparr>rows = rs, codec = ''snappy''\<rparr>]"
  using assms
  by (auto simp add: csv_to_parquet_unfold keys_def split: option.splits sum.splits)

text \<open>
  Claim C1, at the genres file of the concrete run: two rows are counted and the same two rows are
  at the destination.
\<close>

theorem c1_witness:
  "snd (csv_to_parquet spark_csv example_session ''s3a://musicrec-data/raw_genres.csv''
          ''data/processed/genres.parquet'' GENRES_SCHEMA False example_world) =
     Inr [(''count'', PyInt 2), (''output_path'', PyStr ''data/processed/genres.parquet'')] \<and>
   local_files
     (fst (csv_to_parquet spark_csv example_session ''s3a://musicrec-data/raw_genres.csv''
             ''data/processed/genres.parquet'' GENRES_SCHEMA False example_world))
     ''data/processed/genres.parquet'' =
     Some [\<lparr>rows = [[Some ''1'', Some ''#006666'', Some ''Avant-Garde'', Some ''38'',
                      Some ''Avant-Garde''],
                     [None, Some ''#ffffff'', None, None, None]],
            codec = ''snappy''\<rparr>]"
proof -
  let ?run = "csv_to_parquet spark_csv example_session ''s3a://musicrec-data/raw_genres.csv''
                ''data/processed/genres.parquet'' GENRES_SCHEMA False example_world"
  have run: "?run = (fst ?run,
      Inr [(''count'', PyInt 2), (''output_path'', PyStr ''data/processed/genres.parquet'')])"
    by (simp add: genres_run example_genres_result)
  from c1_result_and_count [OF run] obtain content rs where
    "object_store example_world ''s3a://musicrec-data/raw_genres.csv'' = Some content"
    "scan spark_csv example_session (csv_reader GENRES_SCHEMA False) content = Inr rs"
    "local_files (fst ?run) ''data/processed/genres.parquet'' = Some [\<lparr>rows = rs, codec = ''snappy''\<rparr>]"
    by blast
  then show ?thesis
    by (simp add: example_genres_result example_genres_scan)
qed

text \<open>
  Claim C2, as the code has it. With the flag disabled the reader is given no parse mode (it has
  the header option and the schema only), so the read runs under the engine's default mode, which
  is the permissive one. Whatever text is at the source address, the conversion of the genres
  dataset by the reference engine succeeds: every record is counted and written, each as the
  permissive reading of its tokens against the five columns, whether it conforms or not.
\<close>

theorem c2_default_mode_is_permissive:
  assumes "object_store w input_path = Some text"
  shows "map_of (options (csv_reader GENRES_SCHEMA False)) ''mode'' = None \<and>
         (\<exists>w' cols.
            ddl_columns GENRES_SCHEMA = Inr cols \<and> length cols = 5 \<and>
            csv_to_parquet spark_csv spark input_path output_path GENRES_SCHEMA False w =
              (w', Inr [(''count'', PyInt (int (length (csv_records [(''header'', ''true'')] text)))),
                        (''output_path'', PyStr output_path)]) \<and>
            local_files w' output_path =
              Some [\<lparr>rows = map (permissive_row cols) (csv_records [(''header'', ''true'')] text),
                     codec = ''snappy''\<rparr>])"
  using assms
  by (simp add: csv_to_parquet_unfold csv_scan_def csv_reader_def ddl_columns_GENRES
      parse_mode_of_def)

text \<open>
  Claim C2 as amended, at the genres file of the concrete run.
\<close>

theorem c2_witness:
  "object_store example_world ''s3a://musicrec-data/raw_genres.csv'' = Some example_genres_text \<and>
   snd (csv_to_parquet spark_csv example_session ''s3a://musicrec-data/raw_genres.csv''
          ''data/processed/genres.parquet'' GENRES_SCHEMA False example_world) =
     Inr [(''count'', PyInt (int (length (csv_records [(''header'', ''true'')] example_genres_text)))),
          (''output_path'', PyStr ''data/processed/genres.parquet'')]"
  using c2_default_mode_is_permissive [OF example_store_lookups(2), where spark = example_session
          and output_path = "''data/processed/genres.parquet''"]
  by auto

text \<open>
  Claim C2 as stated fails: the second record of the genres file of the concrete run has two
  tokens, the first of them not an integer, so it does not conform to the five-column schema; the
  conversion with the flag disabled nevertheless succeeds, counts it, and writes it with nulls.
\<close>

theorem c2_counterexample:
  "csv_records [(''header'', ''true'')] example_genres_text =
     [[''1'', ''#006666'', ''Avant-Garde'', ''38'', ''Avant-Garde''], [''abc'', ''#ffffff'']] \<and>
   \<not> conforms [(''genre_id'', IntType), (''genre_color'', StringType),
                (''genre_handle'', StringType), (''genre_parent_id'', IntType),
                (''genre_title'', StringType)] [''abc'', ''#ffffff''] \<and>
   snd (csv_to_parquet spark_csv example_session ''s3a://musicrec-data/raw_genres.csv''
          ''data/processed/genres.parquet'' GENRES_SCHEMA False example_world) =
     Inr [(''count'', PyInt 2), (''output_path'', PyStr ''data/processed/genres.parquet'')] \<and>
   local_files
     (fst (csv_to_parquet spark_csv example_session ''s3a://musicrec-data/raw_genres.csv''
             ''data/processed/genres.parquet'' GENRES_SCHEMA False example_world))
     ''data/processed/genres.parquet'' =
     Some [\<lparr>rows = [[Some ''1'', Some ''#006666'', Some ''Avant-Garde'', Some ''38'',
                      Some ''Avant-Garde''],
                     [None, Some ''#ffffff'', None, None, None]],
            codec = ''snappy''\<rparr>]"
  by (simp add: example_genres_records conforms_def csv_to_parquet_unfold example_genres_scan)

text \<open>
  Claim C3. When the access key or the secret key is unset or empty, \<^verbatim>\<open>create_spark_session\<close>
  raises its \<^verbatim>\<open>ValueError\<close> and the world is exactly as before: nothing was printed, no session was
  asked for, nothing else happened. When both are non-empty the check passes: the first two effects
  are the message of line 116 and the request for a session built from the two values, and the
  call returns that session at log level \<^verbatim>\<open>WARN\<close> unless the engine fails to start it.
\<close>

theorem c3_credentials_checked_first:
  "(unset_or_empty (environ w ''AWS_ACCESS_KEY_ID'') \<or>
    unset_or_empty (environ w ''AWS_SECRET_ACCESS_KEY'') \<longrightarrow>
      create_spark_session eng m w = (w, Inl credentials_error)) \<and>
   (\<forall>a s. environ w ''AWS_ACCESS_KEY_ID'' = Some a \<and> a \<noteq> [] \<and>
          environ w ''AWS_SECRET_ACCESS_KEY'' = Some s \<and> s \<noteq> [] \<longrightarrow>
      take 2 (new_events w (fst (create_spark_session eng m w))) =
        [Print (''Initializing Spark with S3 access to region: '' @ AWS_REGION m),
         GetOrCreate (session_builder m a s)] \<and>
      snd (create_spark_session eng m w) =
        (case start_fault eng (session_builder m a s) of
           Some e \<Rightarrow> Inl e
         | None \<Rightarrow> Inr (builder.extend (session_builder m a s) \<lparr>logLevel = Some ''WARN''\<rparr>)))"
  by (auto simp add: create_spark_session_unfold unset_or_empty_def py_not_def Let_def
      split: option.splits)

text \<open>
  Claim C3, at the environment of the concrete run and at the same environment with an empty
  secret key.
\<close>

theorem c3_witness:
  "create_spark_session spark_csv example_globals
      (example_world\<lparr>environ := example_environ_empty_secret\<rparr>) =
     (example_world\<lparr>environ := example_environ_empty_secret\<rparr>, Inl credentials_error) \<and>
   take 2 (new_events example_world
            (fst (create_spark_session spark_csv example_globals example_world))) =
     [Print ''Initializing Spark with S3 access to region: ap-south-1'',
      GetOrCreate (session_builder example_globals ''AKIAEXAMPLE'' ''example-secret'')] \<and>
   snd (create_spark_session spark_csv example_globals example_world) = Inr example_session"
  using c3_credentials_checked_first
          [where w = "example_world\<lparr>environ := example_environ_empty_secret\<rparr>"
             and eng = spark_csv and m = example_globals]
        c3_credentials_checked_first
          [where w = example_world and eng = spark_csv and m = example_globals]
  by (simp add: unset_or_empty_def example_environ_empty_secret_def example_environ_def
      example_session_def example_globals_eq)

text \<open>
  Claim C4, as the code has it: the tracks schema declares 39 columns (lines 27 to 65), the genres
  schema 5 and the artists schema 25.
\<close>

theorem c4_column_counts:
  "column_count TRACKS_SCHEMA = Some 39 \<and>
   column_count GENRES_SCHEMA = Some 5 \<and>
   column_count ARTISTS_SCHEMA = Some 25"
  by (simp add: column_count_TRACKS column_count_GENRES column_count_ARTISTS)

text \<open>
  Claim C4 as stated (38, 5 and 25 columns) fails: the tracks schema has 39.
\<close>

theorem c4_counterexample:
  "\<not> (column_count TRACKS_SCHEMA = Some 38 \<and>
      column_count GENRES_SCHEMA = Some 5 \<and>
      column_count ARTISTS_SCHEMA = Some 25)"
  by (simp add: column_count_TRACKS)

text \<open>
  Claim C5. When the engine accepts the schema text, one reader reaches \<^verbatim>\<open>load\<close>. With the flag
  enabled it has, after the header option, the options \<^verbatim>\<open>multiLine\<close>, \<^verbatim>\<open>quote\<close> and \<^verbatim>\<open>escape\<close> (both
  the double quote) and \<^verbatim>\<open>mode\<close> (\<^verbatim>\<open>PERMISSIVE\<close>); with the flag disabled it has the header option
  only. Both carry the declared schema.
\<close>

theorem c5_reader_options:
  assumes "schema_fault eng schema_ddl = None"
  shows "loads (new_events w (fst (csv_to_parquet eng spark input_path output_path schema_ddl True w))) =
           [(\<lparr>fmt = ''csv'',
              options = [(''header'', ''true''), (''multiLine'', ''true''), (''quote'', [CHR 0x22]),
                         (''escape'', [CHR 0x22]), (''mode'', ''PERMISSIVE'')],
              schema = Some schema_ddl\<rparr>, input_path)] \<and>
         loads (new_events w (fst (csv_to_parquet eng spark input_path output_path schema_ddl False w))) =
           [(\<lparr>fmt = ''csv'', options = [(''header'', ''true'')], schema = Some schema_ddl\<rparr>,
             input_path)]"
  using assms
  by (simp add: csv_to_parquet_unfold loads_append csv_reader_def double_quote_def
      split: option.splits sum.splits)

text \<open>
  Claim C5, at the genres schema, which the reference engine accepts.
\<close>

theorem c5_witness:
  "schema_fault spark_csv GENRES_SCHEMA = None \<and>
   loads (new_events example_world
           (fst (csv_to_parquet spark_csv example_session ''s3a://musicrec-data/raw_genres.csv''
                   ''data/processed/genres.parquet'' GENRES_SCHEMA True example_world))) =
     [(\<lparr>fmt = ''csv'',
        options = [(''header'', ''true''), (''multiLine'', ''true''), (''quote'', [CHR 0x22]),
                   (''escape'', [CHR 0x22]), (''mode'', ''PERMISSIVE'')],
        schema = Some GENRES_SCHEMA\<rparr>, ''s3a://musicrec-data/raw_genres.csv'')] \<and>
   loads (new_events example_world
           (fst (csv_to_parquet spark_csv example_session ''s3a://musicrec-data/raw_genres.csv''
                   ''data/processed/genres.parquet'' GENRES_SCHEMA False example_world))) =
     [(\<lparr>fmt = ''csv'', options = [(''header'', ''true'')], schema = Some GENRES_SCHEMA\<rparr>,
       ''s3a://musicrec-data/raw_genres.csv'')]"
  using c5_reader_options [OF spark_csv_accepts(2), where w = example_world
          and spark = example_session and input_path = "''s3a://musicrec-data/raw_genres.csv''"
          and output_path = "''data/processed/genres.parquet''"]
  by simp

text \<open>
  Claim C6. A run of \<^verbatim>\<open>convert_all\<close> that returns has, after creating the directory, run the
  converter three times, each from the world the one before left: tracks with the flag enabled,
  genres with it disabled, artists with it enabled. Its result maps exactly \<^verbatim>\<open>tracks\<close>,
  \<^verbatim>\<open>genres\<close> and \<^verbatim>\<open>artists\<close> to the three results, and the readers loaded during the run are
  those three, in that order.
\<close>

theorem c6_three_conversions_in_order:
  assumes "m = snd (import_Ingestion dotenv env)"
    and "convert_all eng m spark w = (w', Inr results)"
  shows "\<exists>w0 w1 w2 r1 r2 r3.
           makedirs eng ''data/processed'' True w = (w0, Inr ()) \<and>
           csv_to_parquet eng spark (''s3a://'' @ S3_BUCKET m @ ''/raw_tracks.csv'')
             ''data/processed/tracks.parquet'' TRACKS_SCHEMA True w0 = (w1, Inr r1) \<and>
           csv_to_parquet eng spark (''s3a://'' @ S3_BUCKET m @ ''/raw_genres.csv'')
             ''data/processed/genres.parquet'' GENRES_SCHEMA False w1 = (w2, Inr r2) \<and>
           csv_to_parquet eng spark (''s3a://'' @ S3_BUCKET m @ ''/raw_artists.csv'')
             ''data/processed/artists.parquet'' ARTISTS_SCHEMA True w2 = (w', Inr r3) \<and>
           results = [(''tracks'', r1), (''genres'', r2), (''artists'', r3)] \<and>
           keys results = [''tracks'', ''genres'', ''artists''] \<and>
           loads (new_events w w') =
             [(csv_reader TRACKS_SCHEMA True, ''s3a://'' @ S3_BUCKET m @ ''/raw_tracks.csv''),
              (csv_reader GENRES_SCHEMA False, ''s3a://'' @ S3_BUCKET m @ ''/raw_genres.csv''),
              (csv_reader ARTISTS_SCHEMA True, ''s3a://'' @ S3_BUCKET m @ ''/raw_artists.csv'')]"
proof -
  from assms(2) obtain w0 w1 w2 r1 r2 r3 where
    mk: "makedirs eng ''data/processed'' True w = (w0, Inr ())" and
    t: "csv_to_parquet eng spark (source_uri m ''tracks'') ''data/processed/tracks.parquet''
          TRACKS_SCHEMA True w0 = (w1, Inr r1)" and
    g: "csv_to_parquet eng spark (source_uri m ''genres'') ''data/processed/genres.parquet''
          GENRES_SCHEMA False w1 = (w2, Inr r2)" and
    a: "csv_to_parquet eng spark (source_uri m ''artists'') ''data/processed/artists.parquet''
          ARTISTS_SCHEMA True w2 = (w', Inr r3)" and
    res: "results = [(''tracks'', r1), (''genres'', r2), (''artists'', r3)]"
    unfolding convert_all_unfold [OF assms(1)]
    by (auto simp add: and_then_def return_def split: prod.splits sum.splits unit.splits)
  have tr0: "trace w0 = trace w @ [Makedirs ''data/processed'']"
    using makedirs_trace [OF mk] by simp
  obtain e1 where tr1: "trace w1 = trace w0 @ e1" and n1: "new_events w0 w1 = e1"
    using csv_to_parquet_trace [OF t] by blast
  obtain e2 where tr2: "trace w2 = trace w1 @ e2" and n2: "new_events w1 w2 = e2"
    using csv_to_parquet_trace [OF g] by blast
  obtain e3 where tr3: "trace w' = trace w2 @ e3" and n3: "new_events w2 w' = e3"
    using csv_to_parquet_trace [OF a] by blast
  have ev: "new_events w w' = [Makedirs ''data/processed''] @ e1 @ e2 @ e3"
    by (simp add: new_events_def tr3 tr2 tr1 tr0)
  have l1: "loads e1 = [(csv_reader TRACKS_SCHEMA True, source_uri m ''tracks'')]"
    using csv_to_parquet_success [OF t] n1 by blast
  have l2: "loads e2 = [(csv_reader GENRES_SCHEMA False, source_uri m ''genres'')]"
    using csv_to_parquet_success [OF g] n2 by blast
  have l3: "loads e3 = [(csv_reader ARTISTS_SCHEMA True, source_uri m ''artists'')]"
    using csv_to_parquet_success [OF a] n3 by blast
  have "loads (new_events w w') =
      [(csv_reader TRACKS_SCHEMA True, source_uri m ''tracks''),
       (csv_reader GENRES_SCHEMA False, source_uri m ''genres''),
       (csv_reader ARTISTS_SCHEMA True, source_uri m ''artists'')]"
    by (simp add: ev loads_append l1 l2 l3)
  with mk t g a res show ?thesis
    by (simp add: source_uri_def keys_def)
qed

text \<open>
  Claim C6, at the concrete run.
\<close>

theorem c6_witness:
  "example_globals = snd (import_Ingestion (\<lambda>_. None) example_environ) \<and>
   snd (convert_all spark_csv example_globals example_session example_world) =
     Inr [(''tracks'', [(''count'', PyInt 1), (''output_path'', PyStr ''data/processed/tracks.parquet'')]),
          (''genres'', [(''count'', PyInt 2), (''output_path'', PyStr ''data/processed/genres.parquet'')]),
          (''artists'', [(''count'', PyInt 1), (''output_path'', PyStr ''data/processed/artists.parquet'')])] \<and>
   loads (new_events example_world
           (fst (convert_all spark_csv example_globals example_session example_world))) =
     [(csv_reader TRACKS_SCHEMA True, ''s3a://musicrec-data/raw_tracks.csv''),
      (csv_reader GENRES_SCHEMA False, ''s3a://musicrec-data/raw_genres.csv''),
      (csv_reader ARTISTS_SCHEMA True, ''s3a://musicrec-data/raw_artists.csv'')]"
proof -
  let ?run = "convert_all spark_csv example_globals example_session example_world"
  have run: "?run = (fst ?run,
     Inr [(''tracks'', [(''count'', PyInt 1), (''output_path'', PyStr ''data/processed/tracks.parquet'')]),
          (''genres'', [(''count'', PyInt 2), (''output_path'', PyStr ''data/processed/genres.parquet'')]),
          (''artists'', [(''count'', PyInt 1), (''output_path'', PyStr ''data/processed/artists.parquet'')])])"
    by (simp add: convert_all_run example_convert_all_result)
  from c6_three_conversions_in_order [OF example_globals_import run]
  have "loads (new_events example_world (fst ?run)) =
     [(csv_reader TRACKS_SCHEMA True, ''s3a://'' @ S3_BUCKET example_globals @ ''/raw_tracks.csv''),
      (csv_reader GENRES_SCHEMA False, ''s3a://'' @ S3_BUCKET example_globals @ ''/raw_genres.csv''),
      (csv_reader ARTISTS_SCHEMA True, ''s3a://'' @ S3_BUCKET example_globals @ ''/raw_artists.csv'')]"
    by blast
  then show ?thesis
    using example_globals_import by (simp add: example_convert_all_result)
qed

text \<open>
  Claim C7. In the effects of any conversion, a write comes only after a count. When evaluating
  the read fails (the path is missing, or the engine's reader fails), the conversion ends in an
  error, no write is among its effects and the local files are as before.
\<close>

theorem c7_count_precedes_write:
  assumes "csv_to_parquet eng spark input_path output_path schema_ddl multiline w = (w', r)"
  shows "count_before_save False (new_events w w') \<and>
         (\<forall>e. materialize eng \<lparr>df_session = spark, df_reader = csv_reader schema_ddl multiline,
                                df_path = input_path\<rparr> w = Inl e \<longrightarrow>
              (\<exists>e'. r = Inl e') \<and> local_files w' = local_files w \<and> saves (new_events w w') = [])"
  using assms
  by (auto simp add: csv_to_parquet_unfold materialize_def saves_append
      split: option.splits sum.splits)

text \<open>
  Claim C7, at an engine whose reads fail while counting.
\<close>

theorem c7_witness:
  "materialize unreachable_csv
     \<lparr>df_session = example_session, df_reader = csv_reader GENRES_SCHEMA False,
      df_path = ''s3a://musicrec-data/raw_genres.csv''\<rparr> example_world =
     Inl (EngineError ''connection reset'') \<and>
   snd (csv_to_parquet unreachable_csv example_session ''s3a://musicrec-data/raw_genres.csv''
          ''data/processed/genres.parquet'' GENRES_SCHEMA False example_world) =
     Inl (EngineError ''connection reset'') \<and>
   local_files
     (fst (csv_to_parquet unreachable_csv example_session ''s3a://musicrec-data/raw_genres.csv''
             ''data/processed/genres.parquet'' GENRES_SCHEMA False example_world)) =
     local_files example_world \<and>
   saves (new_events example_world
     (fst (csv_to_parquet unreachable_csv example_session ''s3a://musicrec-data/raw_genres.csv''
             ''data/processed/genres.parquet'' GENRES_SCHEMA False example_world))) = [] \<and>
   count_before_save False (new_events example_world
     (fst (csv_to_parquet unreachable_csv example_session ''s3a://musicrec-data/raw_genres.csv''
             ''data/processed/genres.parquet'' GENRES_SCHEMA False example_world)))"
proof -
  let ?run = "csv_to_parquet unreachable_csv example_session ''s3a://musicrec-data/raw_genres.csv''
                ''data/processed/genres.parquet'' GENRES_SCHEMA False example_world"
  have m: "materialize unreachable_csv
     \<lparr>df_session = example_session, df_reader = csv_reader GENRES_SCHEMA False,
      df_path = ''s3a://musicrec-data/raw_genres.csv''\<rparr> example_world =
     Inl (EngineError ''connection reset'')"
    by (simp add: materialize_def)
  have r: "snd ?run = Inl (EngineError ''connection reset'')"
    by (simp add: csv_to_parquet_unfold)
  have run: "?run = (fst ?run, snd ?run)" by simp
  from c7_count_precedes_write [OF run] m r show ?thesis by simp
qed

text \<open>
  Claim C8. A conversion that returns has written once, in mode \<^verbatim>\<open>overwrite\<close> with the option
  \<^verbatim>\<open>compression\<close> \<^verbatim>\<open>snappy\<close>; the destination then holds exactly one batch, compressed with snappy,
  whatever it held before, and every other path is untouched; converting again returns the same
  result and leaves the same files. The three writes of \<^verbatim>\<open>convert_all\<close> go to the three fixed
  relative paths under \<^verbatim>\<open>data/processed\<close>. A session that \<^verbatim>\<open>create_spark_session\<close> returns has
  snappy as its parquet codec.
\<close>

theorem c8_overwrite_snappy:
  "(csv_to_parquet eng spark i out s ml w = (w1, Inr res) \<longrightarrow>
      saves (new_events w w1) =
        [(\<lparr>save_mode = ''overwrite'', woptions = [(''compression'', ''snappy'')]\<rparr>, out)] \<and>
      (\<exists>rs. local_files w1 = (local_files w)(out := Some [\<lparr>rows = rs, codec = ''snappy''\<rparr>])) \<and>
      (\<exists>w2. csv_to_parquet eng spark i out s ml w1 = (w2, Inr res) \<and>
            local_files w2 = local_files w1)) \<and>
   (m = snd (import_Ingestion dotenv env) \<and> convert_all eng m spark w = (w3, Inr results) \<longrightarrow>
      saves (new_events w w3) =
        [(\<lparr>save_mode = ''overwrite'', woptions = [(''compression'', ''snappy'')]\<rparr>,
          ''data/processed/tracks.parquet''),
         (\<lparr>save_mode = ''overwrite'', woptions = [(''compression'', ''snappy'')]\<rparr>,
          ''data/processed/genres.parquet''),
         (\<lparr>save_mode = ''overwrite'', woptions = [(''compression'', ''snappy'')]\<rparr>,
          ''data/processed/artists.parquet'')]) \<and>
   (create_spark_session eng m w = (w4, Inr sp) \<longrightarrow>
      map_of (config sp) ''spark.sql.parquet.compression.codec'' = Some ''snappy'')"
proof (intro conjI impI)
  assume run: "csv_to_parquet eng spark i out s ml w = (w1, Inr res)"
  then show "saves (new_events w w1) =
        [(\<lparr>save_mode = ''overwrite'', woptions = [(''compression'', ''snappy'')]\<rparr>, out)]"
    using csv_to_parquet_success [OF run] by (auto simp add: overwrite_snappy_def setitem_def)
  from run show "\<exists>rs. local_files w1 = (local_files w)(out := Some [\<lparr>rows = rs, codec = ''snappy''\<rparr>])"
    using csv_to_parquet_success [OF run] by blast
  from run show "\<exists>w2. csv_to_parquet eng spark i out s ml w1 = (w2, Inr res) \<and>
            local_files w2 = local_files w1"
    by (auto simp add: csv_to_parquet_unfold split: option.splits sum.splits)
next
  assume both: "m = snd (import_Ingestion dotenv env) \<and> convert_all eng m spark w = (w3, Inr results)"
  from both have m: "m = snd (import_Ingestion dotenv env)" by (rule conjunct1)
  from both have run: "convert_all eng m spark w = (w3, Inr results)" by (rule conjunct2)
  from run obtain w0 w1 w2 r1 r2 r3 where
    mk: "makedirs eng ''data/processed'' True w = (w0, Inr ())" and
    t: "csv_to_parquet eng spark (source_uri m ''tracks'') ''data/processed/tracks.parquet''
          TRACKS_SCHEMA True w0 = (w1, Inr r1)" and
    g: "csv_to_parquet eng spark (source_uri m ''genres'') ''data/processed/genres.parquet''
          GENRES_SCHEMA False w1 = (w2, Inr r2)" and
    a: "csv_to_parquet eng spark (source_uri m ''artists'') ''data/processed/artists.parquet''
          ARTISTS_SCHEMA True w2 = (w3, Inr r3)"
    unfolding convert_all_unfold [OF m]
    by (auto simp add: and_then_def return_def split: prod.splits sum.splits unit.splits)
  have tr0: "trace w0 = trace w @ [Makedirs ''data/processed'']"
    using makedirs_trace [OF mk] by simp
  obtain e1 where tr1: "trace w1 = trace w0 @ e1" and n1: "new_events w0 w1 = e1"
    using csv_to_parquet_trace [OF t] by blast
  obtain e2 where tr2: "trace w2 = trace w1 @ e2" and n2: "new_events w1 w2 = e2"
    using csv_to_parquet_trace [OF g] by blast
  obtain e3 where tr3: "trace w3 = trace w2 @ e3" and n3: "new_events w2 w3 = e3"
    using csv_to_parquet_trace [OF a] by blast
  have ev: "new_events w w3 = [Makedirs ''data/processed''] @ e1 @ e2 @ e3"
    by (simp add: new_events_def tr3 tr2 tr1 tr0)
  have s1: "saves e1 = [(overwrite_snappy, ''data/processed/tracks.parquet'')]"
    using csv_to_parquet_success [OF t] n1 by blast
  have s2: "saves e2 = [(overwrite_snappy, ''data/processed/genres.parquet'')]"
    using csv_to_parquet_success [OF g] n2 by blast
  have s3: "saves e3 = [(overwrite_snappy, ''data/processed/artists.parquet'')]"
    using csv_to_parquet_success [OF a] n3 by blast
  show "saves (new_events w w3) =
        [(\<lparr>save_mode = ''overwrite'', woptions = [(''compression'', ''snappy'')]\<rparr>,
          ''data/processed/tracks.parquet''),
         (\<lparr>save_mode = ''overwrite'', woptions = [(''compression'', ''snappy'')]\<rparr>,
          ''data/processed/genres.parquet''),
         (\<lparr>save_mode = ''overwrite'', woptions = [(''compression'', ''snappy'')]\<rparr>,
          ''data/processed/artists.parquet'')]"
    by (simp add: ev saves_append s1 s2 s3 overwrite_snappy_def setitem_def)
next
  assume "create_spark_session eng m w = (w4, Inr sp)"
  then show "map_of (config sp) ''spark.sql.parquet.compression.codec'' = Some ''snappy''"
    by (auto simp add: create_spark_session_unfold session_builder_def builder.extend_def
        Let_def split: if_splits option.splits)
qed

text \<open>
  Claim C8, at the concrete run.
\<close>

theorem c8_witness:
  "saves (new_events example_world
     (fst (csv_to_parquet spark_csv example_session ''s3a://musicrec-data/raw_genres.csv''
             ''data/processed/genres.parquet'' GENRES_SCHEMA False example_world))) =
     [(\<lparr>save_mode = ''overwrite'', woptions = [(''compression'', ''snappy'')]\<rparr>,
       ''data/processed/genres.parquet'')] \<and>
   snd (csv_to_parquet spark_csv example_session ''s3a://musicrec-data/raw_genres.csv''
          ''data/processed/genres.parquet'' GENRES_SCHEMA False
          (fst (csv_to_parquet spark_csv example_session ''s3a://musicrec-data/raw_genres.csv''
                  ''data/processed/genres.parquet'' GENRES_SCHEMA False example_world))) =
     Inr [(''count'', PyInt 2), (''output_path'', PyStr ''data/processed/genres.parquet'')] \<and>
   local_files
     (fst (csv_to_parquet spark_csv example_session ''s3a://musicrec-data/raw_genres.csv''
          ''data/processed/genres.parquet'' GENRES_SCHEMA False
          (fst (csv_to_parquet spark_csv example_session ''s3a://musicrec-data/raw_genres.csv''
                  ''data/processed/genres.parquet'' GENRES_SCHEMA False example_world)))) =
     local_files
       (fst (csv_to_parquet spark_csv example_session ''s3a://musicrec-data/raw_genres.csv''
               ''data/processed/genres.parquet'' GENRES_SCHEMA False example_world)) \<and>
   saves (new_events example_world
     (fst (convert_all spark_csv example_globals example_session example_world))) =
     [(\<lparr>save_mode = ''overwrite'', woptions = [(''compression'', ''snappy'')]\<rparr>,
       ''data/processed/tracks.parquet''),
      (\<lparr>save_mode = ''overwrite'', woptions = [(''compression'', ''snappy'')]\<rparr>,
       ''data/processed/genres.parquet''),
      (\<lparr>save_mode = ''overwrite'', woptions = [(''compression'', ''snappy'')]\<rparr>,
       ''data/processed/artists.parquet'')] \<and>
   snd (create_spark_session spark_csv example_globals example_world) = Inr example_session \<and>
   map_of (config example_session) ''spark.sql.parquet.compression.codec'' = Some ''snappy''"
proof -
  let ?g = "csv_to_parquet spark_csv example_session ''s3a://musicrec-data/raw_genres.csv''
              ''data/processed/genres.parquet'' GENRES_SCHEMA False example_world"
  let ?res = "[(''count'', PyInt 2), (''output_path'', PyStr ''data/processed/genres.parquet'')]"
  let ?c = "convert_all spark_csv example_globals example_session example_world"
  let ?s = "create_spark_session spark_csv example_globals example_world"
  have g: "?g = (fst ?g, Inr ?res)"
    by (simp add: genres_run example_genres_result)
  have c: "example_globals = snd (import_Ingestion (\<lambda>_. None) example_environ) \<and>
           ?c = (fst ?c, Inr [(''tracks'', [(''count'', PyInt 1), (''output_path'', PyStr ''data/processed/tracks.parquet'')]),
          (''genres'', [(''count'', PyInt 2), (''output_path'', PyStr ''data/processed/genres.parquet'')]),
          (''artists'', [(''count'', PyInt 1), (''output_path'', PyStr ''data/processed/artists.parquet'')])])"
    using example_globals_import by (simp add: convert_all_run example_convert_all_result)
  have s: "?s = (fst ?s, Inr example_session)"
    by (simp add: prod_eq_iff example_session_result)
  note one = c8_overwrite_snappy [where eng = spark_csv and spark = example_session
      and i = "''s3a://musicrec-data/raw_genres.csv''" and out = "''data/processed/genres.parquet''"
      and s = GENRES_SCHEMA and ml = False and w = example_world and ?w1.0 = "fst ?g"
      and res = ?res and m = example_globals and dotenv = "\<lambda>_. None" and env = example_environ
      and ?w3.0 = "fst ?c" and ?w4.0 = "fst ?s" and sp = example_session]
  from one g have
    a1: "saves (new_events example_world (fst ?g)) =
       [(\<lparr>save_mode = ''overwrite'', woptions = [(''compression'', ''snappy'')]\<rparr>,
         ''data/processed/genres.parquet'')]"
    and a2: "\<exists>w2. csv_to_parquet spark_csv example_session ''s3a://musicrec-data/raw_genres.csv''
              ''data/processed/genres.parquet'' GENRES_SCHEMA False (fst ?g) = (w2, Inr ?res) \<and>
            local_files w2 = local_files (fst ?g)"
    by blast+
  from one c have a3: "saves (new_events example_world (fst ?c)) =
     [(\<lparr>save_mode = ''overwrite'', woptions = [(''compression'', ''snappy'')]\<rparr>,
       ''data/processed/tracks.parquet''),
      (\<lparr>save_mode = ''overwrite'', woptions = [(''compression'', ''snappy'')]\<rparr>,
       ''data/processed/genres.parquet''),
      (\<lparr>save_mode = ''overwrite'', woptions = [(''compression'', ''snappy'')]\<rparr>,
       ''data/processed/artists.parquet'')]"
    by blast
  from one s have a4: "map_of (config example_session) ''spark.sql.parquet.compression.codec'' = Some ''snappy''"
    by blast
  from a2 obtain w2 where
    r: "csv_to_parquet spark_csv example_session ''s3a://musicrec-data/raw_genres.csv''
              ''data/processed/genres.parquet'' GENRES_SCHEMA False (fst ?g) = (w2, Inr ?res)"
    and k: "local_files w2 = local_files (fst ?g)" by blast
  from r k a1 a3 a4 show ?thesis by (simp add: example_session_result)
qed

text \<open>
  Claim C9. Let the tracks conversion succeed. If the genres conversion then fails,
  \<^verbatim>\<open>convert_all\<close> ends with that error in the world the failed conversion left, returns no
  mapping, and the tracks output is still what the tracks conversion wrote. If the genres
  conversion succeeds and the artists conversion fails, the same holds with the tracks and the
  genres outputs.
\<close>

theorem c9_no_rollback:
  assumes "m = snd (import_Ingestion dotenv env)"
    and "makedirs eng ''data/processed'' True w = (w0, Inr ())"
    and "csv_to_parquet eng spark (''s3a://'' @ S3_BUCKET m @ ''/raw_tracks.csv'')
           ''data/processed/tracks.parquet'' TRACKS_SCHEMA True w0 = (w1, Inr r1)"
    and "csv_to_parquet eng spark (''s3a://'' @ S3_BUCKET m @ ''/raw_genres.csv'')
           ''data/processed/genres.parquet'' GENRES_SCHEMA False w1 = (w2, g)"
    and "csv_to_parquet eng spark (''s3a://'' @ S3_BUCKET m @ ''/raw_artists.csv'')
           ''data/processed/artists.parquet'' ARTISTS_SCHEMA True w2 = (w3, a)"
  shows "(\<forall>e. g = Inl e \<longrightarrow>
            convert_all eng m spark w = (w2, Inl e) \<and>
            local_files w1 ''data/processed/tracks.parquet'' \<noteq> None \<and>
            local_files w2 ''data/processed/tracks.parquet'' =
              local_files w1 ''data/processed/tracks.parquet'') \<and>
         (\<forall>r2 e. g = Inr r2 \<and> a = Inl e \<longrightarrow>
            convert_all eng m spark w = (w3, Inl e) \<and>
            local_files w1 ''data/processed/tracks.parquet'' \<noteq> None \<and>
            local_files w2 ''data/processed/genres.parquet'' \<noteq> None \<and>
            local_files w3 ''data/processed/tracks.parquet'' =
              local_files w1 ''data/processed/tracks.parquet'' \<and>
            local_files w3 ''data/processed/genres.parquet'' =
              local_files w2 ''data/processed/genres.parquet'')"
proof -
  note t = assms(3)
  note gg = assms(4)
  note aa = assms(5)
  have written1: "local_files w1 ''data/processed/tracks.parquet'' \<noteq> None"
    using csv_to_parquet_success [OF assms(3)] by auto
  have keep2: "local_files w2 ''data/processed/tracks.parquet'' =
      local_files w1 ''data/processed/tracks.parquet''"
    using csv_to_parquet_frame [OF assms(4), of "''data/processed/tracks.parquet''"] by simp
  have keep3t: "local_files w3 ''data/processed/tracks.parquet'' =
      local_files w2 ''data/processed/tracks.parquet''"
    using csv_to_parquet_frame [OF assms(5), of "''data/processed/tracks.parquet''"] by simp
  have keep3g: "local_files w3 ''data/processed/genres.parquet'' =
      local_files w2 ''data/processed/genres.parquet''"
    using csv_to_parquet_frame [OF assms(5), of "''data/processed/genres.parquet''"] by simp
  have fail_g: "convert_all eng m spark w = (w2, Inl e)" if "g = Inl e" for e
    unfolding convert_all_unfold [OF assms(1)]
    using assms(2) t gg that by (simp add: and_then_def source_uri_def)
  have fail_a: "convert_all eng m spark w = (w3, Inl e)" if "g = Inr r2" "a = Inl e" for r2 e
    unfolding convert_all_unfold [OF assms(1)]
    using assms(2) t gg aa that by (simp add: and_then_def source_uri_def)
  have written2: "local_files w2 ''data/processed/genres.parquet'' \<noteq> None" if "g = Inr r2" for r2
    using csv_to_parquet_success [OF assms(4) [unfolded that]] by auto
  show ?thesis
    using written1 keep2 keep3t keep3g fail_g fail_a written2 by auto
qed

text \<open>
  Claim C9, at the object store without the genres file and at the one without the artists
  file.
\<close>

theorem c9_witness:
  "snd (convert_all spark_csv example_globals example_session example_world_no_genres) =
     Inl (path_missing ''s3a://musicrec-data/raw_genres.csv'') \<and>
   local_files (fst (convert_all spark_csv example_globals example_session example_world_no_genres))
     ''data/processed/tracks.parquet'' =
     Some [\<lparr>rows = [Some ''2'' # Some ''1'' # Some ''AWOL - A Way Of Life'' # replicate 36 None],
            codec = ''snappy''\<rparr>] \<and>
   snd (convert_all spark_csv example_globals example_session example_world_no_artists) =
     Inl (path_missing ''s3a://musicrec-data/raw_artists.csv'') \<and>
   local_files (fst (convert_all spark_csv example_globals example_session example_world_no_artists))
     ''data/processed/tracks.parquet'' =
     Some [\<lparr>rows = [Some ''2'' # Some ''1'' # Some ''AWOL - A Way Of Life'' # replicate 36 None],
            codec = ''snappy''\<rparr>] \<and>
   local_files (fst (convert_all spark_csv example_globals example_session example_world_no_artists))
     ''data/processed/genres.parquet'' =
     Some [\<lparr>rows = [[Some ''1'', Some ''#006666'', Some ''Avant-Garde'', Some ''38'',
                      Some ''Avant-Garde''],
                     [None, Some ''#ffffff'', None, None, None]],
            codec = ''snappy''\<rparr>]"
proof -
  let ?T = "''data/processed/tracks.parquet''"
  let ?G = "''data/processed/genres.parquet''"
  let ?A = "''data/processed/artists.parquet''"
  let ?tu = "''s3a://'' @ S3_BUCKET example_globals @ ''/raw_tracks.csv''"
  let ?gu = "''s3a://'' @ S3_BUCKET example_globals @ ''/raw_genres.csv''"
  let ?au = "''s3a://'' @ S3_BUCKET example_globals @ ''/raw_artists.csv''"
  let ?trows = "[Some ''2'' # Some ''1'' # Some ''AWOL - A Way Of Life'' # replicate 36 None]"
  have first: "snd (convert_all spark_csv example_globals example_session example_world_no_genres) =
       Inl (path_missing ''s3a://musicrec-data/raw_genres.csv'') \<and>
     local_files (fst (convert_all spark_csv example_globals example_session example_world_no_genres))
       ?T = Some [\<lparr>rows = ?trows, codec = ''snappy''\<rparr>]"
  proof -
    let ?w = example_world_no_genres
    define w0 where "w0 = fst (makedirs spark_csv ''data/processed'' True ?w)"
    define w1 where "w1 = fst (csv_to_parquet spark_csv example_session ?tu ?T TRACKS_SCHEMA True w0)"
    define w2 where "w2 = fst (csv_to_parquet spark_csv example_session ?gu ?G GENRES_SCHEMA False w1)"
    define w3 where "w3 = fst (csv_to_parquet spark_csv example_session ?au ?A ARTISTS_SCHEMA True w2)"
    define a where "a = snd (csv_to_parquet spark_csv example_session ?au ?A ARTISTS_SCHEMA True w2)"
    have mk: "makedirs spark_csv ''data/processed'' True ?w = (w0, Inr ())"
      by (simp add: w0_def prod_eq_iff makedirs_unfold)
    have s0: "object_store w0 = object_store ?w"
      by (simp add: w0_def makedirs_unfold)
    have t: "csv_to_parquet spark_csv example_session ?tu ?T TRACKS_SCHEMA True w0 =
        (w1, Inr [(''count'', PyInt 1), (''output_path'', PyStr ?T)])"
      by (simp add: w1_def prod_eq_iff csv_to_parquet_unfold s0 example_tracks_scan)
    have s1: "object_store w1 = object_store ?w"
      and f1: "local_files w1 ?T = Some [\<lparr>rows = ?trows, codec = ''snappy''\<rparr>]"
      by (simp_all add: w1_def csv_to_parquet_unfold s0 example_tracks_scan)
    have g: "csv_to_parquet spark_csv example_session ?gu ?G GENRES_SCHEMA False w1 =
        (w2, Inl (path_missing ''s3a://musicrec-data/raw_genres.csv''))"
      by (simp add: w2_def prod_eq_iff csv_to_parquet_unfold s1)
    have ar: "csv_to_parquet spark_csv example_session ?au ?A ARTISTS_SCHEMA True w2 = (w3, a)"
      by (simp add: w3_def a_def)
    from c9_no_rollback [OF example_globals_import mk t g ar]
    have "convert_all spark_csv example_globals example_session ?w =
            (w2, Inl (path_missing ''s3a://musicrec-data/raw_genres.csv'')) \<and>
          local_files w2 ?T = local_files w1 ?T"
      by blast
    with f1 show ?thesis by simp
  qed
  have second: "snd (convert_all spark_csv example_globals example_session example_world_no_artists) =
       Inl (path_missing ''s3a://musicrec-data/raw_artists.csv'') \<and>
     local_files (fst (convert_all spark_csv example_globals example_session example_world_no_artists))
       ?T = Some [\<lparr>rows = ?trows, codec = ''snappy''\<rparr>] \<and>
     local_files (fst (convert_all spark_csv example_globals example_session example_world_no_artists))
       ?G = Some [\<lparr>rows = [[Some ''1'', Some ''#006666'', Some ''Avant-Garde'', Some ''38'',
                      Some ''Avant-Garde''],
                     [None, Some ''#ffffff'', None, None, None]],
            codec = ''snappy''\<rparr>]"
  proof -
    let ?w = example_world_no_artists
    define w0 where "w0 = fst (makedirs spark_csv ''data/processed'' True ?w)"
    define w1 where "w1 = fst (csv_to_parquet spark_csv example_session ?tu ?T TRACKS_SCHEMA True w0)"
    define w2 where "w2 = fst (csv_to_parquet spark_csv example_session ?gu ?G GENRES_SCHEMA False w1)"
    define w3 where "w3 = fst (csv_to_parquet spark_csv example_session ?au ?A ARTISTS_SCHEMA True w2)"
    have mk: "makedirs spark_csv ''data/processed'' True ?w = (w0, Inr ())"
      by (simp add: w0_def prod_eq_iff makedirs_unfold)
    have s0: "object_store w0 = object_store ?w"
      by (simp add: w0_def makedirs_unfold)
    have t: "csv_to_parquet spark_csv example_session ?tu ?T TRACKS_SCHEMA True w0 =
        (w1, Inr [(''count'', PyInt 1), (''output_path'', PyStr ?T)])"
      by (simp add: w1_def prod_eq_iff csv_to_parquet_unfold s0 example_tracks_scan)
    have s1: "object_store w1 = object_store ?w"
      and f1: "local_files w1 ?T = Some [\<lparr>rows = ?trows, codec = ''snappy''\<rparr>]"
      by (simp_all add: w1_def csv_to_parquet_unfold s0 example_tracks_scan)
    have g: "csv_to_parquet spark_csv example_session ?gu ?G GENRES_SCHEMA False w1 =
        (w2, Inr [(''count'', PyInt 2), (''output_path'', PyStr ?G)])"
      by (simp add: w2_def prod_eq_iff csv_to_parquet_unfold s1 example_genres_scan)
    have s2: "object_store w2 = object_store ?w"
      and f2: "local_files w2 ?G =
         Some [\<lparr>rows = [[Some ''1'', Some ''#006666'', Some ''Avant-Garde'', Some ''38'',
                      Some ''Avant-Garde''],
                     [None, Some ''#ffffff'', None, None, None]],
            codec = ''snappy''\<rparr>]"
      by (simp_all add: w2_def csv_to_parquet_unfold s1 example_genres_scan)
    have ar: "csv_to_parquet spark_csv example_session ?au ?A ARTISTS_SCHEMA True w2 =
        (w3, Inl (path_missing ''s3a://musicrec-data/raw_artists.csv''))"
      by (simp add: w3_def prod_eq_iff csv_to_parquet_unfold s2)
    from c9_no_rollback [OF example_globals_import mk t g ar]
    have "convert_all spark_csv example_globals example_session ?w =
            (w3, Inl (path_missing ''s3a://musicrec-data/raw_artists.csv'')) \<and>
          local_files w3 ?T = local_files w1 ?T \<and> local_files w3 ?G = local_files w2 ?G"
      by blast
    with f1 f2 show ?thesis by simp
  qed
  from first second show ?thesis by simp
qed

lemma example_import_custom_environ:
  "fst (import_Ingestion example_dotenv example_environ_custom) ''S3_BUCKET'' = Some ''my-bucket''"
  "fst (import_Ingestion example_dotenv example_environ_custom) ''AWS_REGION'' = Some ''eu-west-1''"
  "fst (import_Ingestion example_dotenv example_environ_custom) ''CONTAINER_ID'' = None"
  "fst (import_Ingestion example_dotenv example_environ_custom) ''AWS_ACCESS_KEY_ID'' =
     Some ''AKIAEXAMPLE''"
  "fst (import_Ingestion example_dotenv example_environ_custom) ''AWS_SECRET_ACCESS_KEY'' =
     Some ''example-secret''"
  by (simp_all add: import_Ingestion_def load_dotenv_def example_dotenv_def
      example_environ_custom_def example_environ_def Let_def)

lemma example_globals_custom_import:
  "example_globals_custom = snd (import_Ingestion example_dotenv example_environ_custom)"
  by (simp add: example_globals_custom_def)

lemma example_globals_custom_fields [simp]:
  "S3_BUCKET example_globals_custom = ''my-bucket''"
  "AWS_REGION example_globals_custom = ''eu-west-1''"
  by (simp_all add: example_globals_custom_def import_Ingestion_def load_dotenv_def
      getenv_default_def example_dotenv_def example_environ_custom_def example_environ_def
      Let_def)

lemma example_custom_source_uris [simp]:
  "source_uri example_globals_custom ''tracks'' = ''s3a://my-bucket/raw_tracks.csv''"
  "source_uri example_globals_custom ''genres'' = ''s3a://my-bucket/raw_genres.csv''"
  "source_uri example_globals_custom ''artists'' = ''s3a://my-bucket/raw_artists.csv''"
  by (simp_all add: source_uri_def)

lemma example_world_custom_fields [simp]:
  "object_store example_world_custom ''s3a://my-bucket/raw_tracks.csv'' = Some example_tracks_text"
  "object_store example_world_custom ''s3a://my-bucket/raw_genres.csv'' = Some example_genres_text"
  "object_store example_world_custom ''s3a://my-bucket/raw_artists.csv'' = Some example_artists_text"
  "local_files example_world_custom = (\<lambda>_. None)" "trace example_world_custom = []"
  "local_dirs example_world_custom = {}"
  "environ example_world_custom = fst (import_Ingestion example_dotenv example_environ_custom)"
  by (simp_all add: example_world_custom_def example_store_custom_def)

lemma example_convert_all_custom_result:
  "snd (convert_all spark_csv example_globals_custom example_session_custom example_world_custom) =
     Inr [(''tracks'', [(''count'', PyInt 1), (''output_path'', PyStr ''data/processed/tracks.parquet'')]),
          (''genres'', [(''count'', PyInt 2), (''output_path'', PyStr ''data/processed/genres.parquet'')]),
          (''artists'', [(''count'', PyInt 1), (''output_path'', PyStr ''data/processed/artists.parquet'')])]"
  by (simp add: convert_all_unfold [OF example_globals_custom_import] and_then_def makedirs_unfold
      csv_to_parquet_unfold example_genres_scan example_tracks_scan example_artists_scan
      return_def log_def put_file_def)

lemma example_session_custom_result:
  "snd (create_spark_session spark_csv example_globals_custom example_world_custom) =
     Inr example_session_custom"
  by (simp add: create_spark_session_unfold py_not_def example_import_custom_environ
      example_session_custom_def Let_def)

text \<open>
  Claim C10. The import reads the environment once: it drops \<^verbatim>\<open>CONTAINER_ID\<close>, adds the values of
  the \<^verbatim>\<open>.env\<close> file that the environment does not already hold, and binds bucket and region from
  the result, so the bucket is the environment's \<^verbatim>\<open>S3_BUCKET\<close>, else the file's, else
  \<^verbatim>\<open>musicrec-data\<close>, and the region is \<^verbatim>\<open>AWS_REGION\<close> likewise, else \<^verbatim>\<open>ap-south-1\<close>; the three
  source addresses are built from the bucket. Afterwards \<^verbatim>\<open>convert_all\<close> does the same in any
  environment, \<^verbatim>\<open>create_spark_session\<close> does the same in any environment with the same two
  credentials, and the endpoint of a session is the one of the imported region.
\<close>

theorem c10_environment_read_at_import:
  assumes "import_Ingestion dotenv env = (env0, m)"
  shows "env0 = load_dotenv dotenv (env(''CONTAINER_ID'' := None)) \<and>
         S3_BUCKET m =
           (case env ''S3_BUCKET'' of
              Some v \<Rightarrow> v
            | None \<Rightarrow> (case dotenv ''S3_BUCKET'' of Some v \<Rightarrow> v | None \<Rightarrow> ''musicrec-data'')) \<and>
         AWS_REGION m =
           (case env ''AWS_REGION'' of
              Some v \<Rightarrow> v
            | None \<Rightarrow> (case dotenv ''AWS_REGION'' of Some v \<Rightarrow> v | None \<Rightarrow> ''ap-south-1'')) \<and>
         S3_BUCKET m = getenv_default env0 ''S3_BUCKET'' ''musicrec-data'' \<and>
         AWS_REGION m = getenv_default env0 ''AWS_REGION'' ''ap-south-1'' \<and>
         S3_INPUT m =
           [(''tracks'', ''s3a://'' @ S3_BUCKET m @ ''/raw_tracks.csv''),
            (''genres'', ''s3a://'' @ S3_BUCKET m @ ''/raw_genres.csv''),
            (''artists'', ''s3a://'' @ S3_BUCKET m @ ''/raw_artists.csv'')] \<and>
         convert_all eng m spark (w\<lparr>environ := env'\<rparr>) =
           with_environ env' (convert_all eng m spark w) \<and>
         (env' ''AWS_ACCESS_KEY_ID'' = environ w ''AWS_ACCESS_KEY_ID'' \<and>
          env' ''AWS_SECRET_ACCESS_KEY'' = environ w ''AWS_SECRET_ACCESS_KEY'' \<longrightarrow>
            create_spark_session eng m (w\<lparr>environ := env'\<rparr>) =
              with_environ env' (create_spark_session eng m w)) \<and>
         (\<forall>w' sp. create_spark_session eng m w = (w', Inr sp) \<longrightarrow>
            map_of (config sp) ''spark.hadoop.fs.s3a.endpoint'' =
              Some (''s3.'' @ AWS_REGION m @ ''.amazonaws.com''))"
proof -
  have m: "m = snd (import_Ingestion dotenv env)" using assms by simp
  have e0: "env0 = fst (import_Ingestion dotenv env)" using assms by simp
  have tie: "env0 = load_dotenv dotenv (env(''CONTAINER_ID'' := None))"
    by (simp add: e0 import_Ingestion_def Let_def)
  have bucket: "S3_BUCKET m =
           (case env ''S3_BUCKET'' of
              Some v \<Rightarrow> v
            | None \<Rightarrow> (case dotenv ''S3_BUCKET'' of Some v \<Rightarrow> v | None \<Rightarrow> ''musicrec-data''))"
    by (simp add: m import_Ingestion_def load_dotenv_def getenv_default_def Let_def
        split: option.splits)
  have region: "AWS_REGION m =
           (case env ''AWS_REGION'' of
              Some v \<Rightarrow> v
            | None \<Rightarrow> (case dotenv ''AWS_REGION'' of Some v \<Rightarrow> v | None \<Rightarrow> ''ap-south-1''))"
    by (simp add: m import_Ingestion_def load_dotenv_def getenv_default_def Let_def
        split: option.splits)
  have a: "S3_BUCKET m = getenv_default env0 ''S3_BUCKET'' ''musicrec-data''"
    by (simp add: m e0 import_Ingestion_def Let_def)
  have b: "AWS_REGION m = getenv_default env0 ''AWS_REGION'' ''ap-south-1''"
    by (simp add: m e0 import_Ingestion_def Let_def)
  have c: "S3_INPUT m =
           [(''tracks'', ''s3a://'' @ S3_BUCKET m @ ''/raw_tracks.csv''),
            (''genres'', ''s3a://'' @ S3_BUCKET m @ ''/raw_genres.csv''),
            (''artists'', ''s3a://'' @ S3_BUCKET m @ ''/raw_artists.csv'')]"
    by (simp add: m import_Ingestion_def Let_def)
  have d: "convert_all eng m spark (w\<lparr>environ := env'\<rparr>) =
           with_environ env' (convert_all eng m spark w)"
    by (rule convert_all_environ [OF m])
  have e: "create_spark_session eng m (w\<lparr>environ := env'\<rparr>) =
              with_environ env' (create_spark_session eng m w)"
    if "env' ''AWS_ACCESS_KEY_ID'' = environ w ''AWS_ACCESS_KEY_ID''"
      "env' ''AWS_SECRET_ACCESS_KEY'' = environ w ''AWS_SECRET_ACCESS_KEY''"
    using that
    by (simp add: create_spark_session_unfold with_environ_def log_def Let_def
        split: option.splits)
  have f: "map_of (config sp) ''spark.hadoop.fs.s3a.endpoint'' =
              Some (''s3.'' @ AWS_REGION m @ ''.amazonaws.com'')"
    if "create_spark_session eng m w = (w', Inr sp)" for w' sp
    using that
    by (auto simp add: create_spark_session_unfold session_builder_def builder.extend_def
        Let_def split: if_splits option.splits)
  show ?thesis using tie bucket region a b c d e f by blast
qed

text \<open>
  Claim C10, at an import that finds a bucket in the environment and a region in the \<^verbatim>\<open>.env\<close>
  file, and at the import of the concrete run, which finds neither; in both, another bucket and
  region are set after the import.
\<close>

theorem c10_witness:
  "example_environ_custom ''S3_BUCKET'' = Some ''my-bucket'' \<and>
   example_dotenv ''S3_BUCKET'' = Some ''dotenv-bucket'' \<and>
   example_environ_custom ''AWS_REGION'' = None \<and>
   example_dotenv ''AWS_REGION'' = Some ''eu-west-1'' \<and>
   fst (import_Ingestion example_dotenv example_environ_custom) =
     load_dotenv example_dotenv (example_environ_custom(''CONTAINER_ID'' := None)) \<and>
   S3_BUCKET example_globals_custom = ''my-bucket'' \<and>
   AWS_REGION example_globals_custom = ''eu-west-1'' \<and>
   S3_INPUT example_globals_custom =
     [(''tracks'', ''s3a://my-bucket/raw_tracks.csv''),
      (''genres'', ''s3a://my-bucket/raw_genres.csv''),
      (''artists'', ''s3a://my-bucket/raw_artists.csv'')] \<and>
   example_environ_changed ''S3_BUCKET'' = Some ''another-bucket'' \<and>
   example_environ_changed ''AWS_REGION'' = Some ''us-east-1'' \<and>
   snd (convert_all spark_csv example_globals_custom example_session_custom
          (example_world_custom\<lparr>environ := example_environ_changed\<rparr>)) =
     Inr [(''tracks'', [(''count'', PyInt 1), (''output_path'', PyStr ''data/processed/tracks.parquet'')]),
          (''genres'', [(''count'', PyInt 2), (''output_path'', PyStr ''data/processed/genres.parquet'')]),
          (''artists'', [(''count'', PyInt 1), (''output_path'', PyStr ''data/processed/artists.parquet'')])] \<and>
   snd (create_spark_session spark_csv example_globals_custom
          (example_world_custom\<lparr>environ := example_environ_changed\<rparr>)) =
     Inr example_session_custom \<and>
   map_of (config example_session_custom) ''spark.hadoop.fs.s3a.endpoint'' =
     Some ''s3.eu-west-1.amazonaws.com'' \<and>
   S3_INPUT example_globals =
     [(''tracks'', ''s3a://musicrec-data/raw_tracks.csv''),
      (''genres'', ''s3a://musicrec-data/raw_genres.csv''),
      (''artists'', ''s3a://musicrec-data/raw_artists.csv'')] \<and>
   snd (convert_all spark_csv example_globals example_session
          (example_world\<lparr>environ := example_environ_changed\<rparr>)) =
     snd (convert_all spark_csv example_globals example_session example_world) \<and>
   snd (create_spark_session spark_csv example_globals
          (example_world\<lparr>environ := example_environ_changed\<rparr>)) = Inr example_session \<and>
   map_of (config example_session) ''spark.hadoop.fs.s3a.endpoint'' =
     Some ''s3.ap-south-1.amazonaws.com''"
proof -
  have inputs: "example_environ_custom ''S3_BUCKET'' = Some ''my-bucket'' \<and>
     example_dotenv ''S3_BUCKET'' = Some ''dotenv-bucket'' \<and>
     example_environ_custom ''AWS_REGION'' = None \<and>
     example_dotenv ''AWS_REGION'' = Some ''eu-west-1'' \<and>
     example_environ_changed ''S3_BUCKET'' = Some ''another-bucket'' \<and>
     example_environ_changed ''AWS_REGION'' = Some ''us-east-1''"
    by (simp add: example_environ_custom_def example_dotenv_def example_environ_changed_def
        example_environ_def)
  have custom: "fst (import_Ingestion example_dotenv example_environ_custom) =
       load_dotenv example_dotenv (example_environ_custom(''CONTAINER_ID'' := None)) \<and>
     S3_BUCKET example_globals_custom = ''my-bucket'' \<and>
     AWS_REGION example_globals_custom = ''eu-west-1'' \<and>
     S3_INPUT example_globals_custom =
       [(''tracks'', ''s3a://my-bucket/raw_tracks.csv''),
        (''genres'', ''s3a://my-bucket/raw_genres.csv''),
        (''artists'', ''s3a://my-bucket/raw_artists.csv'')] \<and>
     snd (convert_all spark_csv example_globals_custom example_session_custom
            (example_world_custom\<lparr>environ := example_environ_changed\<rparr>)) =
       Inr [(''tracks'', [(''count'', PyInt 1), (''output_path'', PyStr ''data/processed/tracks.parquet'')]),
            (''genres'', [(''count'', PyInt 2), (''output_path'', PyStr ''data/processed/genres.parquet'')]),
            (''artists'', [(''count'', PyInt 1), (''output_path'', PyStr ''data/processed/artists.parquet'')])] \<and>
     snd (create_spark_session spark_csv example_globals_custom
            (example_world_custom\<lparr>environ := example_environ_changed\<rparr>)) =
       Inr example_session_custom \<and>
     map_of (config example_session_custom) ''spark.hadoop.fs.s3a.endpoint'' =
       Some ''s3.eu-west-1.amazonaws.com''"
  proof -
    have imp: "import_Ingestion example_dotenv example_environ_custom =
        (fst (import_Ingestion example_dotenv example_environ_custom), example_globals_custom)"
      by (simp add: prod_eq_iff example_globals_custom_def)
    have s: "create_spark_session spark_csv example_globals_custom example_world_custom =
        (fst (create_spark_session spark_csv example_globals_custom example_world_custom),
         Inr example_session_custom)"
      by (simp add: prod_eq_iff example_session_custom_result)
    note c10 = c10_environment_read_at_import [OF imp, where eng = spark_csv
        and spark = example_session_custom and w = example_world_custom
        and env' = example_environ_changed]
    from c10 have t: "fst (import_Ingestion example_dotenv example_environ_custom) =
         load_dotenv example_dotenv (example_environ_custom(''CONTAINER_ID'' := None))"
      by blast
    from c10 have a: "S3_INPUT example_globals_custom =
           [(''tracks'', ''s3a://'' @ S3_BUCKET example_globals_custom @ ''/raw_tracks.csv''),
            (''genres'', ''s3a://'' @ S3_BUCKET example_globals_custom @ ''/raw_genres.csv''),
            (''artists'', ''s3a://'' @ S3_BUCKET example_globals_custom @ ''/raw_artists.csv'')]"
      by blast
    from c10 have bk: "S3_BUCKET example_globals_custom =
           (case example_environ_custom ''S3_BUCKET'' of
              Some v \<Rightarrow> v
            | None \<Rightarrow> (case example_dotenv ''S3_BUCKET'' of
                         Some v \<Rightarrow> v | None \<Rightarrow> ''musicrec-data''))"
      by blast
    from c10 have rg: "AWS_REGION example_globals_custom =
           (case example_environ_custom ''AWS_REGION'' of
              Some v \<Rightarrow> v
            | None \<Rightarrow> (case example_dotenv ''AWS_REGION'' of
                         Some v \<Rightarrow> v | None \<Rightarrow> ''ap-south-1''))"
      by blast
    from c10 have b: "convert_all spark_csv example_globals_custom example_session_custom
            (example_world_custom\<lparr>environ := example_environ_changed\<rparr>) =
          with_environ example_environ_changed
            (convert_all spark_csv example_globals_custom example_session_custom
               example_world_custom)"
      by blast
    have same: "example_environ_changed ''AWS_ACCESS_KEY_ID'' =
         environ example_world_custom ''AWS_ACCESS_KEY_ID'' \<and>
       example_environ_changed ''AWS_SECRET_ACCESS_KEY'' =
         environ example_world_custom ''AWS_SECRET_ACCESS_KEY''"
      by (simp add: example_environ_changed_def example_import_custom_environ
          example_environ_def)
    from c10 same have c: "create_spark_session spark_csv example_globals_custom
            (example_world_custom\<lparr>environ := example_environ_changed\<rparr>) =
          with_environ example_environ_changed
            (create_spark_session spark_csv example_globals_custom example_world_custom)"
      by blast
    from c10 s have d: "map_of (config example_session_custom) ''spark.hadoop.fs.s3a.endpoint'' =
        Some (''s3.'' @ AWS_REGION example_globals_custom @ ''.amazonaws.com'')"
      by blast
    from bk inputs have bk': "S3_BUCKET example_globals_custom = ''my-bucket''" by simp
    from rg inputs have rg': "AWS_REGION example_globals_custom = ''eu-west-1''" by simp
    show ?thesis
      using t a d bk' rg'
      by (simp add: b c example_session_custom_result example_convert_all_custom_result)
  qed
  have default: "S3_INPUT example_globals =
       [(''tracks'', ''s3a://musicrec-data/raw_tracks.csv''),
        (''genres'', ''s3a://musicrec-data/raw_genres.csv''),
        (''artists'', ''s3a://musicrec-data/raw_artists.csv'')] \<and>
     snd (convert_all spark_csv example_globals example_session
            (example_world\<lparr>environ := example_environ_changed\<rparr>)) =
       snd (convert_all spark_csv example_globals example_session example_world) \<and>
     snd (create_spark_session spark_csv example_globals
            (example_world\<lparr>environ := example_environ_changed\<rparr>)) = Inr example_session \<and>
     map_of (config example_session) ''spark.hadoop.fs.s3a.endpoint'' =
       Some ''s3.ap-south-1.amazonaws.com''"
  proof -
    have imp: "import_Ingestion (\<lambda>_. None) example_environ =
        (fst (import_Ingestion (\<lambda>_. None) example_environ), example_globals)"
      by (simp add: prod_eq_iff example_globals_def)
    have s: "create_spark_session spark_csv example_globals example_world =
        (fst (create_spark_session spark_csv example_globals example_world), Inr example_session)"
      by (simp add: prod_eq_iff example_session_result)
    note c10 = c10_environment_read_at_import [OF imp, where eng = spark_csv
        and spark = example_session and w = example_world and env' = example_environ_changed]
    from c10 have a: "S3_INPUT example_globals =
             [(''tracks'', ''s3a://'' @ S3_BUCKET example_globals @ ''/raw_tracks.csv''),
              (''genres'', ''s3a://'' @ S3_BUCKET example_globals @ ''/raw_genres.csv''),
              (''artists'', ''s3a://'' @ S3_BUCKET example_globals @ ''/raw_artists.csv'')]"
      by blast
    from c10 have b: "convert_all spark_csv example_globals example_session
            (example_world\<lparr>environ := example_environ_changed\<rparr>) =
          with_environ example_environ_changed
            (convert_all spark_csv example_globals example_session example_world)"
      by blast
    have same: "example_environ_changed ''AWS_ACCESS_KEY_ID'' =
         environ example_world ''AWS_ACCESS_KEY_ID'' \<and>
       example_environ_changed ''AWS_SECRET_ACCESS_KEY'' =
         environ example_world ''AWS_SECRET_ACCESS_KEY''"
      by (simp add: example_environ_changed_def)
    from c10 same have c: "create_spark_session spark_csv example_globals
            (example_world\<lparr>environ := example_environ_changed\<rparr>) =
          with_environ example_environ_changed
            (create_spark_session spark_csv example_globals example_world)"
      by blast
    from c10 s have d: "map_of (config example_session) ''spark.hadoop.fs.s3a.endpoint'' =
        Some (''s3.'' @ AWS_REGION example_globals @ ''.amazonaws.com'')"
      by blast
    show ?thesis
      using a d by (simp add: b c example_session_result)
  qed
  from inputs custom default show ?thesis by blast
qed

end
